theory Spec2Isabelle
  imports Complex_Main "HOL-Library.Sublist"
begin

section \<open>Cycle-time calculator: a shallow embedding of \<open>lambda_function.py\<close>\<close>

text \<open>
  The definitions below follow \<open>src/lambda_function.py\<close> function by function; a long
  function is cut into the stages its source lines form, each named after the function
  it belongs to. Conventions:
  \<^item> a Python \<open>str\<close> is a \<open>string\<close> (a list of 8-bit characters: the model covers ASCII
    text, the degree sign is one Latin-1 character);
  \<^item> a Python \<open>float\<close> is an exact rational (\<open>rat\<close>): binary rounding error is not
    modelled, \<open>round(x, n)\<close> rounds the exact value half-to-even at \<open>n\<close> decimals;
  \<^item> a \<open>ContentDict\<close> whose status code is not 900 is \<open>Inl (Status code)\<close>, an exception
    that no handler catches is \<open>Inl (Uncaught exn)\<close>, a status-900 result is \<open>Inr\<close>.
\<close>

subsection \<open>Errors\<close>

datatype py_exn = IndexError | ZeroDivisionError | ValueError | SyntaxError | KeyError | NameError

datatype error = Status nat | Uncaught py_exn

subsection \<open>Python string primitives\<close>

text \<open>\<open>x in s\<close> for two strings: \<open>x\<close> occurs in \<open>s\<close> as a contiguous substring.\<close>

fun py_in :: "string \<Rightarrow> string \<Rightarrow> bool" where
  "py_in x [] = (x = [])"
| "py_in x (c # s) = (prefix x (c # s) \<or> py_in x s)"

text \<open>\<open>s.split(sep)\<close> for a one-character separator: never the empty list.\<close>

fun split_on :: "char \<Rightarrow> string \<Rightarrow> string list" where
  "split_on sep [] = [[]]"
| "split_on sep (c # s) =
     (if c = sep then [] # split_on sep s
      else (case split_on sep s of
              [] \<Rightarrow> [[c]]
            | w # ws \<Rightarrow> (c # w) # ws))"

definition is_digit :: "char \<Rightarrow> bool" where
  "is_digit c = (c \<in> set ''0123456789'')"

definition digit_val :: "char \<Rightarrow> nat" where
  "digit_val c = (case map_of (zip ''0123456789'' [0, 1, 2, 3, 4, 5, 6, 7, 8, 9]) c of
                    Some d \<Rightarrow> d | None \<Rightarrow> 0)"

definition digits_val :: "string \<Rightarrow> nat" where
  "digits_val ds = foldl (\<lambda>a c. 10 * a + digit_val c) 0 ds"

definition is_space :: "char \<Rightarrow> bool" where
  "is_space c = (c \<in> set [CHR '' '', CHR 0x09, CHR 0x0A, CHR 0x0B, CHR 0x0C, CHR 0x0D])"

definition strip :: "string \<Rightarrow> string" where
  "strip s = rev (dropWhile is_space (rev (dropWhile is_space s)))"

text \<open>The digit part of an integer literal given to \<open>int()\<close>: digits, with single
  underscores allowed between two digits.\<close>

fun digits_us :: "string \<Rightarrow> bool" where
  "digits_us [] = False"
| "digits_us [c] = is_digit c"
| "digits_us (c # d # r) =
     (is_digit c \<and> (if d = CHR ''_'' then digits_us r else digits_us (d # r)))"

text \<open>\<open>int(s)\<close> for a string: surrounding whitespace is dropped, one sign is allowed;
  \<open>None\<close> stands for the \<open>ValueError\<close> the source's \<open>try\<close> catches.\<close>

definition py_int :: "string \<Rightarrow> int option" where
  "py_int s =
     (let t = strip s;
          neg = (case t of c # _ \<Rightarrow> c = CHR ''-'' | [] \<Rightarrow> False);
          u = (case t of c # r \<Rightarrow> if c = CHR ''-'' \<or> c = CHR ''+'' then r else t | [] \<Rightarrow> t)
      in if digits_us u
         then Some ((if neg then - 1 else 1) * int (digits_val (filter is_digit u)))
         else None)"

text \<open>\<open>s.lower()\<close> and \<open>s.upper()\<close> on ASCII text.\<close>

definition lower_char :: "char \<Rightarrow> char" where
  "lower_char c =
     (case map_of (zip ''ABCDEFGHIJKLMNOPQRSTUVWXYZ'' ''abcdefghijklmnopqrstuvwxyz'') c of
        Some d \<Rightarrow> d | None \<Rightarrow> c)"

definition upper_char :: "char \<Rightarrow> char" where
  "upper_char c =
     (case map_of (zip ''abcdefghijklmnopqrstuvwxyz'' ''ABCDEFGHIJKLMNOPQRSTUVWXYZ'') c of
        Some d \<Rightarrow> d | None \<Rightarrow> c)"

definition lower :: "string \<Rightarrow> string" where
  "lower s = map lower_char s"

definition upper :: "string \<Rightarrow> string" where
  "upper s = map upper_char s"

subsection \<open>Numbers\<close>

text \<open>\<open>round(x, n)\<close>: the nearest multiple of \<open>10^-n\<close>, a tie going to the even one.\<close>

definition round_half_even :: "rat \<Rightarrow> int" where
  "round_half_even x =
     (let f = \<lfloor>x\<rfloor>; d = x - of_int f
      in if d < 1 / 2 then f else if 1 / 2 < d then f + 1 else if even f then f else f + 1)"

definition py_round :: "rat \<Rightarrow> nat \<Rightarrow> rat" where
  "py_round x n = of_int (round_half_even (x * 10 ^ n)) / 10 ^ n"

text \<open>A value of the request: a string or a number.\<close>

datatype pyval = VStr string | VNum rat

text \<open>\<open>str(v)\<close>; how Python prints a number is left to the parameter \<open>num_str\<close>.\<close>

fun py_str :: "(rat \<Rightarrow> string) \<Rightarrow> pyval \<Rightarrow> string" where
  "py_str num_str (VStr s) = s"
| "py_str num_str (VNum x) = num_str x"

subsection \<open>The data classes (lines 53-111)\<close>

record ToolInfo =
  cut_diameter :: rat
  length_of_cut :: rat
  shank_diameter :: rat
  overall_length :: rat
  flute_length :: rat
  tip_diameter :: rat
  tip_length :: rat
  pilot_length :: rat
  corner_radius :: rat
  neck_diameter :: rat
  neck_length :: rat
  tapered_neck_diameter :: rat
  tapered_neck_angle :: rat
  main_angle :: rat
  material :: string
  material_diameter :: rat
  material_oal :: rat
  material_dimension :: string
  full_description :: string
  tool_description :: string
  bur_description :: string
  formatted_description :: string
  part_number :: string
  tool_family :: string
  reference_family :: string
  tool_type :: string
  flute_count :: string
  fluting_cycle_time :: rat
  prep_cycle_time :: rat
  prep_type :: string

text \<open>\<open>ToolInfo()\<close>: every field at its default.\<close>

definition ToolInfo_default :: ToolInfo where
  "ToolInfo_default =
     \<lparr>cut_diameter = 0, length_of_cut = 0, shank_diameter = 0, overall_length = 0,
      flute_length = 0, tip_diameter = 0, tip_length = 0, pilot_length = 0, corner_radius = 0,
      neck_diameter = 0, neck_length = 0, tapered_neck_diameter = 0, tapered_neck_angle = 0,
      main_angle = 0, material = '''', material_diameter = 0, material_oal = 0,
      material_dimension = '''', full_description = '''', tool_description = '''',
      bur_description = '''', formatted_description = '''', part_number = '''',
      tool_family = '''', reference_family = '''', tool_type = '''', flute_count = '''',
      fluting_cycle_time = 0, prep_cycle_time = 0, prep_type = ''''\<rparr>"

record InputArgData =
  tert_od_angle :: bool
  notch :: bool
  end_type :: string
  end_time :: bool
  bur_cut :: string
  spiral :: bool
  double_end :: bool
  coarse :: bool
  performance :: bool
  detail :: bool
  mass_detail :: bool
  mm :: bool
  prep :: bool

definition InputArgData_default :: InputArgData where
  "InputArgData_default =
     \<lparr>tert_od_angle = False, notch = False, end_type = '''', end_time = False, bur_cut = '''',
      spiral = False, double_end = False, coarse = False, performance = False, detail = False,
      mass_detail = False, mm = False, prep = False\<rparr>"

subsection \<open>\<open>lambda_handler\<close> (lines 141-312)\<close>

text \<open>
  The event is a dictionary; a key that may be absent is an \<open>option\<close>. \<open>kwargs\<close> keeps its
  insertion order, which the scan for the part number depends on.
\<close>

record event =
  ev_Diameter :: "pyval option"
  ev_LOC :: "pyval option"
  ev_ShankDiameter :: "pyval option"
  ev_OAL :: "pyval option"
  ev_FluteCount :: "pyval option"
  ev_Description :: "pyval option"
  ev_args :: "string list option"
  ev_kwargs :: "(string \<times> pyval) list option"

text \<open>What the handler hands on: the six values it builds \<open>ToolInfo(...)\<close> from, and the
  \<open>args\<close> and \<open>kwargs\<close> it passes to \<open>get_tool_detail\<close>.\<close>

record request =
  rq_cut_diameter :: pyval
  rq_length_of_cut :: pyval
  rq_shank_diameter :: pyval
  rq_overall_length :: pyval
  rq_flute_count :: pyval
  rq_tool_description :: pyval
  rq_args :: "string list"
  rq_kwargs :: "(string \<times> pyval) list"

record 'd response_data =
  statusCode :: nat
  PartNumber :: string
  Diameter :: rat
  LOC :: rat
  ShankDiameter :: rat
  OAL :: rat
  FluteCount :: string
  Description :: string
  Family :: string
  PrepType :: string
  CycleTime :: rat
  PrepTime :: rat
  TotalCycleTime :: rat
  Detail :: 'd

datatype 'd response = Failure nat | Crash py_exn | Success "'d response_data"

text \<open>\<open>event[key] = 0\<close> for a numeric key whose value is the empty string (lines 221-226).\<close>

definition blank_to_zero :: "pyval \<Rightarrow> pyval" where
  "blank_to_zero v = (if v = VStr '''' then VNum 0 else v)"

text \<open>The scan of \<open>kwargs\<close> for the part number (lines 209-216): the \<open>break\<close> is not under
  the \<open>if\<close>, so the loop body runs for the first entry only.\<close>

definition scan_part_num :: "(rat \<Rightarrow> string) \<Rightarrow> (string \<times> pyval) list \<Rightarrow> string" where
  "scan_part_num num_str kwargs =
     (case kwargs of
        [] \<Rightarrow> ''''
      | (k, v) # _ \<Rightarrow> if lower k = ''part_num'' then py_str num_str v else '''')"

text \<open>
  The handler. Its parameter \<open>get_tool_detail\<close> stands for the call
  \<open>get_tool_detail(tool=ToolInfo(...), context=context, args=args, kwargs=kwargs)\<close>; the
  branch for a result that is no \<open>ToolInfo\<close> cannot be taken at this type. An exception
  out of the call ends the handler.
\<close>

definition lambda_handler ::
  "(rat \<Rightarrow> string) \<Rightarrow> (request \<Rightarrow> error + (ToolInfo \<times> InputArgData \<times> 'd)) \<Rightarrow> event
     \<Rightarrow> 'd response" where
  "lambda_handler num_str get_tool_detail ev =
     (let args = (case ev_args ev of Some a \<Rightarrow> a | None \<Rightarrow> []);
          part_num = (case ev_kwargs ev of Some kw \<Rightarrow> scan_part_num num_str kw | None \<Rightarrow> '''');
          kwargs = (case ev_kwargs ev of Some kw \<Rightarrow> kw | None \<Rightarrow> [])
      in case (map_option blank_to_zero (ev_Diameter ev), map_option blank_to_zero (ev_LOC ev),
               map_option blank_to_zero (ev_ShankDiameter ev),
               map_option blank_to_zero (ev_OAL ev), ev_FluteCount ev, ev_Description ev) of
           (Some diameter, Some loc, Some shank_dia, Some oal, Some fl_cnt, Some description) \<Rightarrow>
             if description = VStr '''' then Failure 204
             else (case get_tool_detail
                          \<lparr>rq_cut_diameter = diameter, rq_length_of_cut = loc,
                           rq_shank_diameter = shank_dia, rq_overall_length = oal,
                           rq_flute_count = fl_cnt, rq_tool_description = description,
                           rq_args = args, rq_kwargs = kwargs\<rparr> of
                     Inl (Status code) \<Rightarrow> Failure code
                   | Inl (Uncaught e) \<Rightarrow> Crash e
                   | Inr (tool, feature, det) \<Rightarrow>
                       Success
                         \<lparr>statusCode = 900, PartNumber = part_num,
                          Diameter = cut_diameter tool, LOC = length_of_cut tool,
                          ShankDiameter = shank_diameter tool, OAL = overall_length tool,
                          FluteCount = flute_count tool, Description = full_description tool,
                          Family = tool_family tool, PrepType = prep_type tool,
                          CycleTime = fluting_cycle_time tool,
                          PrepTime = prep_cycle_time tool,
                          TotalCycleTime =
                            py_round (fluting_cycle_time tool + prep_cycle_time tool) 3,
                          Detail = det\<rparr>)
         | _ \<Rightarrow> Failure 108)"

subsection \<open>\<open>calc_fluting_time\<close>: parsing the flute count (lines 1559-1575)\<close>

text \<open>
  \<open>fl_cnt1, fl_cnt2 = map(int, fl_cnt.split("/"))\<close> succeeds exactly when the split has two
  parts and both convert; a failing \<open>int\<close> and a wrong number of parts both raise inside
  the \<open>try\<close>, whose handler answers 202 when the string has a slash and 203 otherwise.
\<close>

definition flute_counts :: "string \<Rightarrow> error + (int \<times> int)" where
  "flute_counts fl_cnt =
     (if CHR ''/'' \<in> set fl_cnt then
        (case map py_int (split_on CHR ''/'' fl_cnt) of
           [Some fl_cnt1, Some fl_cnt2] \<Rightarrow> Inr (fl_cnt1, fl_cnt2)
         | _ \<Rightarrow> Inl (Status 202))
      else if fl_cnt \<noteq> [] then
        (case py_int fl_cnt of
           Some fl_cnt1 \<Rightarrow> Inr (fl_cnt1, 1)
         | None \<Rightarrow> Inl (Status 203))
      else Inl (Status 307))"

subsection \<open>\<open>get_family\<close> (lines 801-883)\<close>

text \<open>
  The reference taxonomy \<open>json_content["tool_types"]\<close>, as far as \<open>get_family\<close> reads it.
  Membership is all the source asks of the lists, so each is a list of strings here
  (\<open>get_json_from_layer\<close> turns four of them into sets).
\<close>

record tool_types =
  EM_LIST :: "string list"
  BUR_LIST :: "string list"
  DRILL_LIST :: "string list"
  FBGR_LIST :: "string list"
  WR_LIST :: "string list"
  O_FLUTE_LIST :: "string list"
  WR_COMP_LIST :: "string list"
  BUR_CUT_LIST :: "string list"

record fam_info =
  fi_family :: string
  fi_ref_family :: string
  fi_end_type :: string
  fi_bur_cut :: string
  fi_spiral :: bool

definition ROUTER_FAM :: "string list" where
  "ROUTER_FAM = [''WR'', ''O-FLUTE'', ''WR COMP'']"

text \<open>The \<open>for cut in BUR_CUT_LIST: ... else:\<close> loop: \<open>None\<close> is the \<open>else\<close> branch, taken
  when the loop ends without \<open>break\<close>.\<close>

fun bur_cut_loop :: "string list \<Rightarrow> string list \<Rightarrow> bool \<Rightarrow> (string \<times> bool) option" where
  "bur_cut_loop [] split_description sp = None"
| "bur_cut_loop (ct # cuts) split_description sp =
     (let spiral' = (if ''SPIRAL'' \<in> set split_description then True else sp)
      in if ct \<in> set split_description then Some (ct, spiral')
         else bur_cut_loop cuts split_description spiral')"

definition get_family :: "tool_types \<Rightarrow> string \<Rightarrow> string list \<Rightarrow> error + fam_info" where
  "get_family json_content base_description split_description =
     (if base_description \<in> set (EM_LIST json_content) then
        Inr \<lparr>fi_family = ''EM'', fi_ref_family = ''SQ EM'', fi_end_type = '''', fi_bur_cut = '''',
             fi_spiral = False\<rparr>
      else if base_description \<in> set (WR_LIST json_content) then
        Inr \<lparr>fi_family = ''WR'', fi_ref_family = ''SQ EM'', fi_end_type = '''', fi_bur_cut = '''',
             fi_spiral = False\<rparr>
      else if base_description \<in> set (DRILL_LIST json_content) then
        Inr \<lparr>fi_family = ''DRILL'', fi_ref_family = ''SQ EM'', fi_end_type = '''', fi_bur_cut = '''',
             fi_spiral = False\<rparr>
      else if base_description \<in> set (FBGR_LIST json_content) then
        (case split_description of
           [] \<Rightarrow> Inl (Uncaught IndexError)
         | w # _ \<Rightarrow>
             Inr \<lparr>fi_family = ''FBGR'', fi_ref_family = ''BUR'', fi_end_type = w, fi_bur_cut = '''',
                  fi_spiral = False\<rparr>)
      else if base_description \<in> set (O_FLUTE_LIST json_content) then
        Inr \<lparr>fi_family = ''O-FLUTE'', fi_ref_family = ''SQ EM'', fi_end_type = '''', fi_bur_cut = '''',
             fi_spiral = False\<rparr>
      else if base_description \<in> set (WR_COMP_LIST json_content) then
        Inr \<lparr>fi_family = ''WR COMP'', fi_ref_family = ''SQ EM'', fi_end_type = '''', fi_bur_cut = '''',
             fi_spiral = False\<rparr>
      else if (\<exists>x \<in> set (BUR_LIST json_content). py_in x base_description)
              \<and> \<not> py_in ''DRILL'' base_description then
        (case bur_cut_loop (BUR_CUT_LIST json_content) split_description False of
           Some (ct, spiral') \<Rightarrow>
             Inr \<lparr>fi_family = ''BUR'', fi_ref_family = ''BUR'', fi_end_type = '''', fi_bur_cut = ct,
                  fi_spiral = spiral'\<rparr>
         | None \<Rightarrow> Inl (Status 302))
      else Inl (Status 301))"

subsection \<open>\<open>get_tool_detail\<close>: option tokens and keyword arguments (lines 1437-1467)\<close>

text \<open>One pass of \<open>for arg in args\<close>: the token, upper-cased, names the flag to set;
  an unknown token sets nothing.\<close>

definition apply_arg :: "string \<Rightarrow> InputArgData \<Rightarrow> InputArgData" where
  "apply_arg arg feature =
     (let a = upper arg
      in if a = ''TERT'' then feature\<lparr>tert_od_angle := True\<rparr>
         else if a = ''NOTCH'' then feature\<lparr>notch := True\<rparr>
         else if a = ''DE'' then feature\<lparr>double_end := True\<rparr>
         else if a = ''COARSE'' then feature\<lparr>coarse := True\<rparr>
         else if a = ''DETAIL'' then feature\<lparr>detail := True\<rparr>
         else if a = ''MASS'' then feature\<lparr>mass_detail := True\<rparr>
         else if a = ''MM'' then feature\<lparr>mm := True\<rparr>
         else if a = ''PREP'' then feature\<lparr>prep := True\<rparr>
         else feature)"

definition apply_args :: "string list \<Rightarrow> InputArgData \<Rightarrow> InputArgData" where
  "apply_args args feature = foldl (\<lambda>f arg. apply_arg arg f) feature args"

text \<open>\<open>float(v)\<close>: a number is kept; how Python reads a string as a float is left to the
  parameter \<open>float_of_str\<close>, \<open>None\<close> being its \<open>ValueError\<close>.\<close>

fun py_float :: "(string \<Rightarrow> rat option) \<Rightarrow> pyval \<Rightarrow> rat option" where
  "py_float float_of_str (VStr s) = float_of_str s"
| "py_float float_of_str (VNum x) = Some x"

text \<open>One pass of \<open>for k, v in kw.items()\<close>: the value is coerced to the type the field
  has (\<open>str\<close> for the three text fields, \<open>float\<close> for the two diameters); a failing
  coercion is status 200.\<close>

definition apply_kwarg ::
  "(rat \<Rightarrow> string) \<Rightarrow> (string \<Rightarrow> rat option) \<Rightarrow> string \<times> pyval \<Rightarrow> ToolInfo \<Rightarrow> error + ToolInfo" where
  "apply_kwarg num_str float_of_str kv tool =
     (let a = upper (fst kv); v = snd kv
      in if a = ''PART_NUM'' then Inr (tool\<lparr>part_number := py_str num_str v\<rparr>)
         else if a = ''MATERIAL'' then Inr (tool\<lparr>material := py_str num_str v\<rparr>)
         else if a = ''MAT_DIMENSION'' then Inr (tool\<lparr>material_dimension := py_str num_str v\<rparr>)
         else if a = ''TIP_DIAMETER'' then
           (case py_float float_of_str v of
              Some x \<Rightarrow> Inr (tool\<lparr>tip_diameter := x\<rparr>)
            | None \<Rightarrow> Inl (Status 200))
         else if a = ''TAPERED_NECK_DIA'' then
           (case py_float float_of_str v of
              Some x \<Rightarrow> Inr (tool\<lparr>tapered_neck_diameter := x\<rparr>)
            | None \<Rightarrow> Inl (Status 200))
         else Inr tool)"

fun apply_kwargs ::
  "(rat \<Rightarrow> string) \<Rightarrow> (string \<Rightarrow> rat option) \<Rightarrow> (string \<times> pyval) list \<Rightarrow> ToolInfo
     \<Rightarrow> error + ToolInfo" where
  "apply_kwargs num_str float_of_str [] tool = Inr tool"
| "apply_kwargs num_str float_of_str (kv # kw) tool =
     (case apply_kwarg num_str float_of_str kv tool of
        Inl e \<Rightarrow> Inl e
      | Inr tool' \<Rightarrow> apply_kwargs num_str float_of_str kw tool')"

subsection \<open>\<open>calc_fluting_time\<close>: the endmill, router and drill branch (lines 1783-2005)\<close>

text \<open>
  The branch works on the first row of the reference sheet whose diameter range holds the
  cut diameter. The row's values are \<open>numpy\<close> numbers: dividing by one that is zero raises
  nothing and gives \<open>inf\<close> or \<open>nan\<close>. Rationals have no such value, so the model stops
  there with \<open>NotFinite\<close>; dividing a Python float by a zero float raises
  \<open>ZeroDivisionError\<close>.
\<close>

datatype calc_error = Failed error | NotFinite

record rate_row =
  min_diameter :: rat
  max_diameter :: rat
  fluting_fr :: rat
  od_fr :: rat
  end_ct :: rat
  end_gash_ct :: rat
  end_split_ct :: rat

definition np_div :: "rat \<Rightarrow> rat \<Rightarrow> calc_error + rat" where
  "np_div a b = (if b = 0 then Inl NotFinite else Inr (a / b))"

definition float_div :: "rat \<Rightarrow> rat \<Rightarrow> calc_error + rat" where
  "float_div a b = (if b = 0 then Inl (Failed (Uncaught ZeroDivisionError)) else Inr (a / b))"

definition and_then :: "calc_error + 'a \<Rightarrow> ('a \<Rightarrow> calc_error + 'b) \<Rightarrow> calc_error + 'b" where
  "and_then m f = (case m of Inl e \<Rightarrow> Inl e | Inr x \<Rightarrow> f x)"

text \<open>The local variables of the branch that later lines read or write.\<close>

record em_vars =
  v_loc :: rat
  v_inc_percentage :: rat
  v_split :: bool
  v_sec_od_angle :: bool
  v_tert_od_angle :: bool
  v_sec_inc :: rat
  v_end_time :: bool
  v_calc_fl_time :: rat
  v_calc_od_time :: rat
  v_calc_end_time :: rat
  v_calc_gash_time :: rat
  v_end_split_time :: rat

definition chk_mirror_finish :: "rat \<Rightarrow> string list \<Rightarrow> rat" where
  "chk_mirror_finish inc_percentage split_description =
     (if ''MF'' \<in> set split_description then inc_percentage + 0.2 else inc_percentage)"

definition dynamic_variable :: rat where
  "dynamic_variable = 2.5"

definition dia_cutoff :: rat where
  "dia_cutoff = py_round (3 / 25.4) 4"

text \<open>Lines 1787-1811: the length of cut and the increase the branch starts from
  (\<open>inc_percentage\<close> is 1 on entry). The result is \<open>(loc, inc_percentage)\<close>.\<close>

definition em_prepare ::
  "string \<Rightarrow> string list \<Rightarrow> rat \<Rightarrow> rat \<Rightarrow> calc_error + (rat \<times> rat)" where
  "em_prepare description split_description cut_dia loc =
     and_then
       (if py_in ''MINI-MILL'' (upper description) then
          and_then (float_div cut_dia loc)
            (\<lambda>mm_ratio. Inr (if 0.5 < mm_ratio then loc * 1.8 else loc))
        else Inr loc)
       (\<lambda>loc1.
          let split_description1 =
                (if py_in ''OFX'' description then split_description @ [''MF'']
                 else split_description);
              inc1 = (if py_in ''OFX'' description \<and> 0.079 < cut_dia then 1 + 0.20 else 1);
              mf_inc = chk_mirror_finish inc1 split_description1;
              inc2 = (if inc1 < mf_inc then inc1 + (mf_inc - inc1) else inc1);
              loc2 = (if py_in ''STAGGERED'' description then cut_dia * 3 else loc1)
          in Inr (loc2, inc2))"

text \<open>Lines 1813-1837: the feedrates of the row and the four base times. The result is
  \<open>(calc_fl_time, calc_od_time, calc_end_time, calc_gash_time)\<close>.\<close>

definition em_base_times ::
  "rate_row \<Rightarrow> rat \<Rightarrow> rat \<Rightarrow> int \<Rightarrow> calc_error + (rat \<times> rat \<times> rat \<times> rat)" where
  "em_base_times row_values cut_dia loc fl_cnt1 =
     and_then (if cut_dia < 0.06 then np_div cut_dia (max_diameter row_values) else Inr 1)
       (\<lambda>diff.
          let fluting_feedrate = fluting_fr row_values * diff;
              od_feedrate = od_fr row_values * diff;
              cnt = (if fl_cnt1 = 2 then 4 else of_int fl_cnt1)
          in and_then (np_div loc fluting_feedrate)
               (\<lambda>fl. and_then (np_div loc od_feedrate)
                  (\<lambda>od. and_then (np_div (cut_dia * 0.5) (end_ct row_values))
                     (\<lambda>en. and_then (np_div (cut_dia * 0.5) (end_gash_ct row_values))
                        (\<lambda>ga. Inr (fl * dynamic_variable * cnt,
                                    od * dynamic_variable * cnt,
                                    en * dynamic_variable * of_int fl_cnt1,
                                    ga * dynamic_variable * of_int fl_cnt1))))))"

text \<open>Lines 1880-1909: the table of endmill shapes. Each entry is the shape word, the
  flute counts that have a split, the increase, and whether the shape has a secondary OD
  angle; the loop visits the entries in this order and every matching one overrides the
  split and the secondary angle.\<close>

definition EM_MAP :: "string \<Rightarrow> bool \<Rightarrow> (string \<times> int list \<times> rat \<times> bool) list" where
  "EM_MAP description sec_od_angle =
     [(''SQ'', [3, 5, 6], 0.0, sec_od_angle),
      (''BALL'', [3, 4, 5, 6], 0.25, sec_od_angle),
      (''CR'', [3, 5, 6], 0.20, sec_od_angle),
      (''DRILLMILL'', [], 0.05, sec_od_angle),
      (''ROUGHER'', [3, 5, 6], 0.0, False),
      (''ALUMAZIP'', [], 0.0, False),
      (''TAPERMILL'', [3], if py_in ''CR'' description then 0.0 else 0.05, True)]"

definition em_shape_rule ::
  "string \<Rightarrow> int \<Rightarrow> em_vars \<Rightarrow> string \<times> int list \<times> rat \<times> bool \<Rightarrow> em_vars" where
  "em_shape_rule description fl_cnt1 v entry =
     (case entry of (word, split_counts, inc, sec_od) \<Rightarrow>
        if py_in word description then
          v\<lparr>v_inc_percentage := v_inc_percentage v + inc,
            v_split := (fl_cnt1 \<in> set split_counts),
            v_sec_od_angle := sec_od\<rparr>
        else v)"

definition em_shape :: "string \<Rightarrow> rat \<Rightarrow> int \<Rightarrow> em_vars \<Rightarrow> em_vars" where
  "em_shape description cut_dia fl_cnt1 v =
     (let sec_od_angle = (if cut_dia < dia_cutoff then False else True)
      in foldl (em_shape_rule description fl_cnt1) (v\<lparr>v_sec_od_angle := sec_od_angle\<rparr>)
           (EM_MAP description sec_od_angle))"

text \<open>\<open>inc_percentage += x\<close>.\<close>

definition add_inc :: "rat \<Rightarrow> em_vars \<Rightarrow> em_vars" where
  "add_inc x v = v\<lparr>v_inc_percentage := v_inc_percentage v + x\<rparr>"

text \<open>Lines 1911-1930: rougher, straight flute and wood routers, one definition for each
  \<open>if\<close> statement of the source.\<close>

definition em_rougher :: "string \<Rightarrow> em_vars \<Rightarrow> em_vars" where
  "em_rougher description v =
     (if py_in ''ROUGHER'' (upper description) then v\<lparr>v_sec_inc := 60 / 60\<rparr> else v)"

definition em_straight_flute :: "string \<Rightarrow> string \<Rightarrow> em_vars \<Rightarrow> em_vars" where
  "em_straight_flute description fam v =
     (if py_in ''STRFL'' (upper description) \<and> \<not> py_in ''REAMER'' description then
        (if fam = ''DRILL'' then add_inc 0.45 (add_inc 0.1 v) else add_inc 0.1 v)
      else v)"

definition em_router :: "string \<Rightarrow> string \<Rightarrow> int \<Rightarrow> em_vars \<Rightarrow> em_vars" where
  "em_router description fam fl_cnt1 v =
     (if fam \<in> set ROUTER_FAM then
        (let v1 = (if py_in ''CB'' (upper description) then add_inc 0.20 v else v);
             v2 = (if py_in ''COMP'' description then
                     (if fl_cnt1 = 2 then add_inc 0.5 v1 else add_inc 0.70 v1)
                   else v1)
         in if py_in ''HOGGER'' (upper description) \<or> py_in ''RIPPER'' (upper description)
            then add_inc 0.40 v2 else v2)
      else v)"

text \<open>Lines 1937-1970: a drill that is no reamer. A spade drill has its own fluting
  time; for the others the four \<open>if\<close> statements of the \<open>else\<close> branch follow one another.\<close>

definition drill_spade :: "rat \<Rightarrow> em_vars \<Rightarrow> em_vars" where
  "drill_spade cut_dia v =
     (let v1 = add_inc 0.30 (v\<lparr>v_calc_fl_time := v_loc v / (5 / 25.4)\<rparr>);
          v2 = (if cut_dia < 0.1575 then add_inc 0.15 v1 else v1)
      in v2\<lparr>v_calc_gash_time := 0\<rparr>)"

definition drill_small :: "rat \<Rightarrow> em_vars \<Rightarrow> em_vars" where
  "drill_small cut_dia v =
     (if cut_dia < dia_cutoff then
        (let v1 = add_inc (- 0.20) v;
             v2 = (if cut_dia < 0.0501 then add_inc (- 0.30) v1 else v1)
         in v2\<lparr>v_calc_gash_time := 0\<rparr>)
      else v)"

definition drill_kind :: "string \<Rightarrow> rat \<Rightarrow> em_vars \<Rightarrow> em_vars" where
  "drill_kind description cut_dia v =
     (if py_in ''SPOTTING'' description then add_inc 0.20 v
      else if py_in ''DRILL&COUNTERSINK'' description then
        (if 0.0500 < cut_dia then add_inc 0.15 v else v)
      else if py_in ''HURRICANE'' description then add_inc 0.20 v
      else if py_in ''MAXIMIZER'' description then add_inc 0.15 v
      else v)"

definition drill_short :: "string \<Rightarrow> rat \<Rightarrow> em_vars \<Rightarrow> em_vars" where
  "drill_short description cut_dia v =
     (if v_loc v < 0.7000 \<and> 0.0790 < cut_dia \<and> \<not> py_in ''SPOTTING'' description
      then add_inc 0.15 v else v)"

definition drill_large :: "rat \<Rightarrow> em_vars \<Rightarrow> em_vars" where
  "drill_large cut_dia v = (if 0.5000 < cut_dia then add_inc (- 0.05) v else v)"

definition em_drill :: "string \<Rightarrow> rat \<Rightarrow> em_vars \<Rightarrow> em_vars" where
  "em_drill description cut_dia v0 =
     (let v = v0\<lparr>v_split := False, v_calc_od_time := 0\<rparr>
      in if py_in ''SPADE'' description then drill_spade cut_dia v
         else drill_large cut_dia
                (drill_short description cut_dia
                   (drill_kind description cut_dia (drill_small cut_dia v))))"

text \<open>Lines 1932-1937: a reamer has an end time only with an end cut; otherwise a drill
  gets the drill rules.\<close>

definition em_reamer_drill :: "string \<Rightarrow> string \<Rightarrow> rat \<Rightarrow> em_vars \<Rightarrow> em_vars" where
  "em_reamer_drill description fam cut_dia v =
     (if py_in ''REAMER'' description then v\<lparr>v_end_time := py_in ''ENDCUT'' description\<rparr>
      else if fam = ''DRILL'' then em_drill description cut_dia v
      else v)"

definition em_family :: "string \<Rightarrow> string \<Rightarrow> rat \<Rightarrow> int \<Rightarrow> em_vars \<Rightarrow> em_vars" where
  "em_family description fam cut_dia fl_cnt1 v =
     em_reamer_drill description fam cut_dia
       (em_router description fam fl_cnt1
          (em_straight_flute description fam (em_rougher description v)))"

text \<open>Lines 1839-1876 and 1971-1972: the performance series, one pass of the loop over
  \<open>PERF_LIST\<close> and the loop.\<close>

definition perf_rule :: "string \<Rightarrow> em_vars \<Rightarrow> string \<Rightarrow> em_vars" where
  "perf_rule ttype v ps =
     (if py_in ps ttype then
        (if prefix ''V'' ps then
           (if prefix ''SQ'' ttype \<or> prefix ''CR'' ttype
            then (add_inc 0.1 v)\<lparr>v_split := False\<rparr> else add_inc 0.1 v)
         else if ps = ''AX'' then
           (if py_in ''CB'' ttype
            then (add_inc 0.05 v)\<lparr>v_split := False, v_sec_inc := 45 / 60\<rparr>
            else (add_inc 0.05 v)\<lparr>v_split := False\<rparr>)
         else if ps = ''CR TAPERMILL'' then add_inc (- 0.15) v
         else if ps = ''F45'' then add_inc 0.1 (v\<lparr>v_split := False\<rparr>)
         else if ps = ''HY5'' then add_inc 0.1 v
         else if ps = ''HYPERMILL'' then add_inc 0.05 v
         else if ps = ''MOLD'' then add_inc 0.05 v
         else if ps = ''TWISTER'' then add_inc 0.05 v
         else v)
      else v)"

definition check_performance_series :: "string list \<Rightarrow> string \<Rightarrow> em_vars \<Rightarrow> em_vars" where
  "check_performance_series PERF_LIST ttype v = foldl (perf_rule ttype) v PERF_LIST"

text \<open>Lines 1974-1994, one definition for each \<open>if\<close> statement: a tertiary angle needs a
  secondary one; a tool without OD time has no OD angle; a staggered tool has neither
  angle, split nor OD time; end and gash time go without end time, the split time without
  split; last the factor on the OD time.\<close>

definition od_tert_needs_sec :: "em_vars \<Rightarrow> em_vars" where
  "od_tert_needs_sec v =
     (if v_tert_od_angle v = True \<and> v_sec_od_angle v = False
      then v\<lparr>v_tert_od_angle := False\<rparr> else v)"

definition od_none :: "em_vars \<Rightarrow> em_vars" where
  "od_none v =
     (if v_calc_od_time v = 0 then v\<lparr>v_sec_od_angle := False, v_tert_od_angle := False\<rparr>
      else v)"

definition od_staggered :: "string \<Rightarrow> em_vars \<Rightarrow> em_vars" where
  "od_staggered description v =
     (if py_in ''STAGGERED'' (upper description)
      then v\<lparr>v_sec_od_angle := False, v_tert_od_angle := False, v_split := False,
             v_calc_od_time := 0\<rparr>
      else v)"

definition drop_end :: "em_vars \<Rightarrow> em_vars" where
  "drop_end v =
     (if \<not> v_end_time v then v\<lparr>v_calc_end_time := 0, v_calc_gash_time := 0\<rparr> else v)"

definition drop_split :: "em_vars \<Rightarrow> em_vars" where
  "drop_split v = (if \<not> v_split v then v\<lparr>v_end_split_time := 0\<rparr> else v)"

definition od_factor :: "em_vars \<Rightarrow> em_vars" where
  "od_factor v =
     (if v_sec_od_angle v \<and> v_tert_od_angle v
      then v\<lparr>v_calc_od_time := v_calc_od_time v * 3.0\<rparr>
      else if v_sec_od_angle v \<and> \<not> v_tert_od_angle v
      then v\<lparr>v_calc_od_time := v_calc_od_time v * 2.0\<rparr>
      else v)"

definition em_od_angles :: "string \<Rightarrow> em_vars \<Rightarrow> em_vars" where
  "em_od_angles description v =
     od_factor (drop_split (drop_end (od_staggered description
       (od_none (od_tert_needs_sec v)))))"

text \<open>Lines 1996-2005: the cycle time of the branch, before it is rounded.\<close>

definition em_fluting_time ::
  "string \<Rightarrow> rat \<Rightarrow> int \<Rightarrow> bool \<Rightarrow> em_vars \<Rightarrow> calc_error + rat" where
  "em_fluting_time description cut_dia fl_cnt1 dbl v =
     (let t0 = (v_calc_fl_time v + v_calc_od_time v + v_calc_end_time v + v_calc_gash_time v
                + v_end_split_time v) * v_inc_percentage v + v_sec_inc v * of_int fl_cnt1;
          t1 = (if dbl = True then t0 * 2 else t0)
      in if py_in ''MINI-MILL'' (upper description) then
           and_then (float_div cut_dia (v_loc v))
             (\<lambda>mm_ratio. Inr (if 0.5 < mm_ratio then t1 * (2 + (0.6 - mm_ratio)) else t1))
         else Inr t1)"

text \<open>The branch as a whole: \<open>description\<close> is \<open>tool.formatted_description\<close>,
  \<open>split_description\<close> the words of \<open>tool.tool_description\<close>, \<open>cut_dia\<close> and \<open>row_values\<close> the
  diameter and the row that the row selection ended with. The result is the final
  variables and the unrounded cycle time.\<close>

definition em_branch ::
  "string list \<Rightarrow> InputArgData \<Rightarrow> string \<Rightarrow> string list \<Rightarrow> string \<Rightarrow> rate_row \<Rightarrow> rat \<Rightarrow> rat
     \<Rightarrow> int \<Rightarrow> calc_error + (em_vars \<times> rat)" where
  "em_branch PERF_LIST feature description split_description fam row_values cut_dia loc fl_cnt1 =
     and_then (em_prepare description split_description cut_dia loc)
       (\<lambda>(loc1, inc).
          and_then (em_base_times row_values cut_dia loc1 fl_cnt1)
            (\<lambda>(fl, od, en, ga).
               let v0 = \<lparr>v_loc = loc1, v_inc_percentage = inc, v_split = notch feature,
                         v_sec_od_angle = False, v_tert_od_angle = tert_od_angle feature,
                         v_sec_inc = 0, v_end_time = end_time feature,
                         v_calc_fl_time = fl, v_calc_od_time = od, v_calc_end_time = en,
                         v_calc_gash_time = ga, v_end_split_time = end_split_ct row_values\<rparr>;
                   v1 = em_shape description cut_dia fl_cnt1 v0;
                   v2 = em_family description fam cut_dia fl_cnt1 v1;
                   v3 = (if performance feature
                         then check_performance_series PERF_LIST description v2 else v2);
                   v4 = em_od_angles description v3
               in and_then (em_fluting_time description cut_dia fl_cnt1 (double_end feature) v4)
                    (\<lambda>t. Inr (v4, t))))"

subsection \<open>\<open>calc_prep_time\<close>: the volume computation \<open>vol_calc\<close> (lines 1147-1257)\<close>

text \<open>
  A row of a prep sheet of the reference workbook. A cell is \<open>None\<close> when the workbook has
  no number there (\<open>NaN\<close> in the data frame); a column that a sheet does not have can hold
  any number. A sheet is the list of its rows, the workbook a map from sheet names.
\<close>

record prep_row =
  length_ratio :: "rat option"
  neck_ratio :: "rat option"
  reduction_vol :: "rat option"
  in3_per_min :: "rat option"
  major_diameter :: "rat option"

record vol_result =
  res_time :: rat
  res_reduction_vol :: rat
  res_rate :: rat

text \<open>\<open>math.pi\<close>: the double nearest to the circle constant, which is this rational.\<close>

definition py_pi :: rat where
  "py_pi = 884279719003555 / 281474976710656"

definition isnull_any :: "prep_row list \<Rightarrow> bool" where
  "isnull_any fr_df =
     (\<exists>r \<in> set fr_df. length_ratio r = None \<or> neck_ratio r = None \<or> reduction_vol r = None
        \<or> in3_per_min r = None \<or> major_diameter r = None)"

text \<open>The first element with the least key, as \<open>idxmin\<close> and \<open>min(..., key=...)\<close> return
  it; \<open>None\<close> on an empty list, where both raise \<open>ValueError\<close>.\<close>

fun first_min :: "('a \<Rightarrow> rat) \<Rightarrow> 'a list \<Rightarrow> 'a option" where
  "first_min key [] = None"
| "first_min key (x # xs) =
     (case first_min key xs of
        None \<Rightarrow> Some x
      | Some y \<Rightarrow> if key x \<le> key y then Some x else Some y)"

text \<open>The row whose documented volume is closest to the computed one, among the rows of
  the length-ratio bucket (\<open>< 8\<close> or \<open>\<ge> 8\<close>); its removal rate.\<close>

definition match_rate :: "prep_row list \<Rightarrow> rat \<Rightarrow> rat \<Rightarrow> error + rat" where
  "match_rate df lratio vol =
     (let bucket = (if lratio < 8 then filter (\<lambda>r. the (length_ratio r) < 8) df
                    else filter (\<lambda>r. 8 \<le> the (length_ratio r)) df)
      in case first_min (\<lambda>r. \<bar>the (reduction_vol r) - vol\<bar>) bucket of
           None \<Rightarrow> Inl (Uncaught ValueError)
         | Some match_row \<Rightarrow> Inr (the (in3_per_min match_row)))"

text \<open>The last lines of \<open>vol_calc\<close> (1249-1257): the time from volume and rate.\<close>

definition vol_time :: "rat \<Rightarrow> rat \<Rightarrow> vol_result" where
  "vol_time vol rate =
     \<lparr>res_time = (if rate = 0 then 0 else py_round (vol / rate) 3),
      res_reduction_vol = vol, res_rate = rate\<rparr>"

definition vol_calc ::
  "(string \<Rightarrow> prep_row list option) \<Rightarrow> string \<Rightarrow> rat \<Rightarrow> rat \<Rightarrow> rat \<Rightarrow> string \<Rightarrow> string
     \<Rightarrow> error + vol_result" where
  "vol_calc excel description major_od minor_od height sheet_name vol_type =
     (case excel sheet_name of
        None \<Rightarrow> Inl (Uncaught KeyError)
      | Some fr_df \<Rightarrow>
          if length fr_df = 0 then Inl (Status 404)
          else if isnull_any fr_df then Inl (Status 102)
          else
            (let major_rad = major_od / 2;
                 minor_rad = minor_od / 2;
                 major_vol = py_pi * major_rad ^ 2 * height
             in if vol_type \<noteq> ''CYLINDER'' \<and> vol_type \<noteq> ''CONE'' then Inl (Uncaught NameError)
                else
                  (let minor_vol =
                         (if vol_type = ''CONE''
                          then py_pi * height
                               * (major_rad ^ 2 + minor_rad ^ 2 + major_rad * minor_rad) / 3
                          else py_pi * minor_rad ^ 2 * height);
                       vol = major_vol - minor_vol
                   in if minor_od = 0 then Inl (Uncaught ZeroDivisionError)
                      else
                        (let lratio = py_round (height / minor_od) 0
                         in if sheet_name = ''F_RED_PREP'' then
                              (case match_rate fr_df lratio vol of
                                 Inl e \<Rightarrow> Inl e
                               | Inr rate \<Rightarrow> Inr (vol_time vol rate))
                            else if sheet_name = ''NECK_PREP'' then
                              (if major_od = 0 then Inl (Uncaught ZeroDivisionError)
                               else
                                 (let neck_pecent = 1 - minor_od / major_od;
                                      allowed_percent =
                                        (if minor_od = major_od then 0.15 else 0.2);
                                      neck_df =
                                        (if neck_pecent < allowed_percent
                                         then filter (\<lambda>r. the (neck_ratio r) < 0.15) fr_df
                                         else filter (\<lambda>r. 0.15 \<le> the (neck_ratio r)) fr_df)
                                  in case match_rate neck_df lratio vol of
                                       Inl e \<Rightarrow> Inl e
                                     | Inr rate \<Rightarrow> Inr (vol_time vol rate)))
                            else if sheet_name = ''POINT_PREP'' then
                              (case first_min (\<lambda>r. \<bar>the (major_diameter r) - major_od\<bar>) fr_df of
                                 None \<Rightarrow> Inl (Uncaught ValueError)
                               | Some closest \<Rightarrow>
                                   if major_od = 0 then Inl (Uncaught ZeroDivisionError)
                                   else
                                     (let match_row =
                                            filter (\<lambda>r. major_diameter r = major_diameter closest)
                                              fr_df;
                                          tip_ratio = minor_od / major_od;
                                          inc0 = (if 0.45 \<le> tip_ratio then 1.1 else 1.0);
                                          inc = (if py_in ''TAPERMILL'' description
                                                    \<and> 8 < height / minor_od
                                                 then inc0 + 1.6 else inc0)
                                      in case match_row of
                                           [] \<Rightarrow> Inl (Uncaught IndexError)
                                         | r # _ \<Rightarrow>
                                             Inr (vol_time vol (the (in3_per_min r) * inc))))
                            else Inl (Uncaught KeyError)))))"

subsection \<open>\<open>calc_prep_time\<close>: the backtaper time (lines 1010-1019)\<close>

text \<open>\<open>BT_DICT\<close> is the entry \<open>backtaper_prep\<close> of the reference data: the tool words that
  need a backtaper and the rate in millimeters per minute. The result is
  \<open>(backtaper_prep, bt_time, backtaper_rate)\<close>.\<close>

record backtaper_dict =
  bt_tools :: "string list"
  bt_rate :: rat

definition backtaper :: "backtaper_dict \<Rightarrow> string \<Rightarrow> rat \<Rightarrow> error + (bool \<times> rat \<times> rat)" where
  "backtaper BT_DICT description prep_length =
     (if \<exists>word \<in> set (bt_tools BT_DICT). py_in word description then
        (let backtaper_rate = bt_rate BT_DICT / 25.4
         in if backtaper_rate = 0 then Inl (Uncaught ZeroDivisionError)
            else Inr (True, prep_length / backtaper_rate, backtaper_rate))
      else Inr (False, 0, 0))"

subsection \<open>\<open>calc_prep_time\<close>: summing the prep times (lines 1369-1425)\<close>

text \<open>Which prep operations the tool needs, and the times the computations above gave
  for them.\<close>

record prep_flags =
  front_reduction_prep :: bool
  shank_reduction_prep :: bool
  point_prep :: bool
  chamfer_prep :: bool
  neck_prep :: bool
  tapered_neck_prep :: bool
  radius_prep :: bool
  backtaper_prep :: bool
  flat_prep :: bool
  cut_off_prep :: bool
  bumping_prep :: bool
  cg_prep :: bool

record prep_times =
  fr_time :: rat
  sr_time :: rat
  pt_time :: rat
  nk_time :: rat
  tp_nk_time :: rat
  bt_time :: rat

text \<open>\<open>prep_type_dict\<close> in insertion order: the name, whether the operation is needed, and
  its time increased by 10 percent. (The source keeps the removed volume and the rate in
  each entry too; the lines below never read them.) With a neck prep its entry is popped
  and put back last under the name that tells the neck type.\<close>

definition inc_percentage :: rat where
  "inc_percentage = 1.10"

definition prep_type_dict ::
  "prep_flags \<Rightarrow> prep_times \<Rightarrow> string \<Rightarrow> (string \<times> bool \<times> rat) list" where
  "prep_type_dict f t nk_type =
     (let neck = (neck_prep f, py_round (nk_time t * inc_percentage) 4);
          nk_name = (if nk_type = ''AF'' then ''After Fluting'' else ''Before Fluting'')
      in [(''Front Reduction Prep'', front_reduction_prep f,
            py_round (fr_time t * inc_percentage) 4),
          (''Shank Reduction Prep'', shank_reduction_prep f,
            py_round (sr_time t * inc_percentage) 4),
          (''Point Prep'', point_prep f, py_round (pt_time t * inc_percentage) 4),
          (''Chamfer Prep'', chamfer_prep f, 0)]
         @ (if neck_prep f then [] else [(''Neck Prep'', neck)])
         @ [(''Tapered Neck Prep'', tapered_neck_prep f,
              py_round (tp_nk_time t * inc_percentage) 4),
            (''Radius Prep'', radius_prep f, 0),
            (''Backtaper Prep'', backtaper_prep f, py_round (bt_time t * inc_percentage) 4),
            (''Flat Prep'', flat_prep f, 0),
            (''Cut Off Prep'', cut_off_prep f, 0),
            (''Bumping Prep'', bumping_prep f, 0),
            (''Centerless Grinding Prep'', cg_prep f, 0)]
         @ (if neck_prep f then [(''Neck Prep ('' @ nk_name @ '')'', neck)] else []))"

text \<open>\<open>prep_type\<close>: the entries of the needed operations, as name and time.\<close>

definition needed_preps :: "(string \<times> bool \<times> rat) list \<Rightarrow> (string \<times> rat) list" where
  "needed_preps d = map (\<lambda>e. (fst e, snd (snd e))) (filter (\<lambda>e. fst (snd e) = True) d)"

text \<open>The robot time of one operation (lines 1399-1405).\<close>

definition robot_time_of :: "string \<times> rat \<Rightarrow> rat" where
  "robot_time_of p =
     (if snd p < 1.11 \<and> \<not> snd p = 0 then
        (if py_in ''Backtaper Prep'' (fst p) then py_round (5 / 60) 4 else py_round (20 / 60) 4)
      else 0)"

text \<open>One pass of \<open>for prep in prep_type\<close> on the variables \<open>(total_prep_time,
  total_robot_time, robot_time)\<close>, and the loop from their initial values.\<close>

definition prep_step :: "rat \<times> rat \<times> rat \<Rightarrow> string \<times> rat \<Rightarrow> rat \<times> rat \<times> rat" where
  "prep_step s p =
     (case s of (total_prep_time, total_robot_time, _) \<Rightarrow>
        let robot_time = robot_time_of p;
            prep_time = py_round (snd p + robot_time) 3
        in (total_prep_time + prep_time, total_robot_time + robot_time, robot_time))"

definition prep_loop :: "(string \<times> rat) list \<Rightarrow> rat \<times> rat \<times> rat" where
  "prep_loop ps = foldl prep_step (0, 0, 0) ps"

text \<open>Lines 1410-1413: the total, doubled for a double-ended tool, then
  \<open>round(total_prep_time + robot_time, 3)\<close> with the \<open>robot_time\<close> that the last pass of the
  loop left.\<close>

definition total_prep_time :: "(string \<times> rat) list \<Rightarrow> bool \<Rightarrow> rat" where
  "total_prep_time ps dbl =
     (case prep_loop ps of (tot, _, robot_time) \<Rightarrow>
        py_round ((if dbl then tot * 2 else tot) + robot_time) 3)"

text \<open>Lines 1414-1425: the text of the prep types and the two fields written to the tool,
  both only when some operation is needed. \<open>num_str\<close> prints a number as an f-string
  does.\<close>

definition prep_type_text :: "(rat \<Rightarrow> string) \<Rightarrow> (string \<times> rat) list \<Rightarrow> rat \<Rightarrow> string" where
  "prep_type_text num_str ps robot_time =
     (let joined = concat (map (\<lambda>p. fst p @ '': '' @ num_str (snd p) @ '' | '') ps);
          n = length joined;
          text0 = (if drop (n - 3) joined = '' | '' then take (n - 3) joined else joined)
      in text0 @ '' | Robot Time: '' @ num_str robot_time)"

definition finish_prep ::
  "(rat \<Rightarrow> string) \<Rightarrow> prep_flags \<Rightarrow> prep_times \<Rightarrow> string \<Rightarrow> bool \<Rightarrow> ToolInfo \<Rightarrow> ToolInfo" where
  "finish_prep num_str f t nk_type dbl tool =
     (let ps = needed_preps (prep_type_dict f t nk_type)
      in if ps \<noteq> [] then
           tool\<lparr>prep_type := prep_type_text num_str ps (snd (snd (prep_loop ps))),
                prep_cycle_time := total_prep_time ps dbl\<rparr>
         else tool)"

text \<open>The sum that the description of the prep time gives: for each needed operation
  its increased time plus its robot time, doubled for a double-ended tool.\<close>

definition surcharged_sum :: "(string \<times> rat) list \<Rightarrow> bool \<Rightarrow> rat" where
  "surcharged_sum ps dbl =
     (if dbl then 2 else 1) * (\<Sum>p \<leftarrow> ps. snd p + robot_time_of p)"

subsection \<open>Example inputs\<close>

text \<open>A small taxonomy to run \<open>get_family\<close> on.\<close>

definition example_tool_types :: tool_types where
  "example_tool_types = \<lparr>EM_LIST = [''SQ EM''], BUR_LIST = [''OVAL'', ''CYLINDER''], DRILL_LIST = [''DRILL''],
     FBGR_LIST = [''FBGR''], WR_LIST = [''WR''], O_FLUTE_LIST = [''O-FLUTE WR''],
     WR_COMP_LIST = [''COMP WR''], BUR_CUT_LIST = [''DC'', ''SC'', ''DM'']\<rparr>"

text \<open>A request for a bur with a part number, and a stand-in for the calculation that
  answers with the times of the handler's docstring (cycle time 2.489, prep time 6.965).\<close>

definition example_event :: event where
  "example_event =
     \<lparr>ev_Diameter = Some (VStr ''''), ev_LOC = Some (VStr ''''),
      ev_ShankDiameter = Some (VStr ''''), ev_OAL = Some (VStr ''''),
      ev_FluteCount = Some (VStr ''8/5''),
      ev_Description = Some (VStr ''1/4X3/8X1/4X2 OVAL DOUBLECUT WITH .113X.6395 NECK''),
      ev_args = Some [''PREP''],
      ev_kwargs = Some [(''MATERIAL'', VStr ''SOLID''), (''PART_NUM'', VStr ''101-101'')]\<rparr>"

definition example_detail :: "request \<Rightarrow> error + (ToolInfo \<times> InputArgData \<times> string)" where
  "example_detail rq =
     Inr (ToolInfo_default\<lparr>fluting_cycle_time := 2.489, prep_cycle_time := 6.965\<rparr>,
          InputArgData_default, ''OVAL DC'')"

text \<open>A row of the endmill sheet for diameters from 0.1875 to 0.25.\<close>

definition example_row :: rate_row where
  "example_row =
     \<lparr>min_diameter = 3 / 16, max_diameter = 1 / 4, fluting_fr = 2, od_fr = 4,
      end_ct = 1 / 2, end_gash_ct = 1 / 2, end_split_ct = 1 / 4\<rparr>"

text \<open>A tool whose only prep operation is a neck prep of half a minute.\<close>

definition example_flags :: prep_flags where
  "example_flags =
     \<lparr>front_reduction_prep = False, shank_reduction_prep = False, point_prep = False,
      chamfer_prep = False, neck_prep = True, tapered_neck_prep = False, radius_prep = False,
      backtaper_prep = False, flat_prep = False, cut_off_prep = False, bumping_prep = False,
      cg_prep = False\<rparr>"

definition example_times :: prep_times where
  "example_times =
     \<lparr>fr_time = 0, sr_time = 0, pt_time = 0, nk_time = 0.5, tp_nk_time = 0, bt_time = 0\<rparr>"

text \<open>A workbook with a front-reduction sheet of two rows and a point sheet of one.\<close>

definition example_excel :: "string \<Rightarrow> prep_row list option" where
  "example_excel sheet_name =
     (if sheet_name = ''F_RED_PREP'' then
        Some [\<lparr>length_ratio = Some 4, neck_ratio = Some 0, reduction_vol = Some 0.01,
                in3_per_min = Some 0.02, major_diameter = Some 0\<rparr>,
              \<lparr>length_ratio = Some 4, neck_ratio = Some 0, reduction_vol = Some 0.05,
                in3_per_min = Some 0, major_diameter = Some 0\<rparr>]
      else if sheet_name = ''POINT_PREP'' then
        Some [\<lparr>length_ratio = Some 0, neck_ratio = Some 0, reduction_vol = Some 0,
                in3_per_min = Some 0.05, major_diameter = Some 0.25\<rparr>]
      else None)"

section \<open>Properties\<close>

subsection \<open>Evaluating numbers\<close>

lemma floor_rat_divide_numeral [simp]:
  "\<lfloor>numeral a / numeral b :: rat\<rfloor> = numeral a div numeral b"
  by (metis floor_divide_of_int_eq of_int_numeral)

lemma floor_rat_minus_divide_numeral [simp]:
  "\<lfloor>- (numeral a / numeral b) :: rat\<rfloor> = - numeral a div numeral b"
  by (metis divide_minus_left floor_divide_of_int_eq of_int_neg_numeral of_int_numeral)

lemmas py_round_eval = py_round_def round_half_even_def Let_def

subsection \<open>Flute-count parsing\<close>

lemmas py_int_eval = py_int_def strip_def is_space_def is_digit_def digits_val_def digit_val_def

lemma split_on_no_sep: "sep \<notin> set a \<Longrightarrow> split_on sep a = [a]"
  by (induction a) auto

lemma split_on_two:
  "sep \<notin> set a \<Longrightarrow> sep \<notin> set b \<Longrightarrow> split_on sep (a @ sep # b) = [a, b]"
  by (induction a) (auto simp: split_on_no_sep)

lemma flute_counts_bad_part:
  assumes "CHR ''/'' \<in> set s" and "p \<in> set (split_on CHR ''/'' s)" and "py_int p = None"
  shows "flute_counts s = Inl (Status 202)"
proof -
  have "None \<in> set (map py_int (split_on CHR ''/'' s))"
    using assms(2,3) by force
  then show ?thesis using assms(1)
    by (auto simp: flute_counts_def split: list.splits option.splits)
qed

text \<open>
  Claim C2. The flute-count string "8/5" gives the counts (8, 5), "8" gives (8, 1), the
  empty string fails with 307 and "a/b" with 202. In general: two integer strings joined
  by a slash give both counts; an integer string without a slash gives that count and 1;
  a string with a slash one of whose parts is no integer fails with 202; a non-empty
  string without a slash that is no integer fails with 203. Nothing of the tool but its
  flute-count string enters.
\<close>

theorem flute_count_parsing:
  "flute_counts ''8/5'' = Inr (8, 5)
   \<and> flute_counts ''8'' = Inr (8, 1)
   \<and> flute_counts '''' = Inl (Status 307)
   \<and> flute_counts ''a/b'' = Inl (Status 202)
   \<and> (CHR ''/'' \<notin> set a \<and> CHR ''/'' \<notin> set b \<and> py_int a = Some m \<and> py_int b = Some n
        \<longrightarrow> flute_counts (a @ ''/'' @ b) = Inr (m, n))
   \<and> (CHR ''/'' \<notin> set s \<and> py_int s = Some k \<longrightarrow> flute_counts s = Inr (k, 1))
   \<and> (CHR ''/'' \<in> set s \<and> (\<exists>p \<in> set (split_on CHR ''/'' s). py_int p = None)
        \<longrightarrow> flute_counts s = Inl (Status 202))
   \<and> (CHR ''/'' \<notin> set s \<and> s \<noteq> '''' \<and> py_int s = None \<longrightarrow> flute_counts s = Inl (Status 203))"
proof (intro conjI impI)
  show "flute_counts ''8/5'' = Inr (8, 5)" by (simp add: flute_counts_def py_int_eval)
  show "flute_counts ''8'' = Inr (8, 1)" by (simp add: flute_counts_def py_int_eval)
  show "flute_counts '''' = Inl (Status 307)" by (simp add: flute_counts_def)
  show "flute_counts ''a/b'' = Inl (Status 202)" by (simp add: flute_counts_def py_int_eval)
next
  assume h: "CHR ''/'' \<notin> set a \<and> CHR ''/'' \<notin> set b \<and> py_int a = Some m \<and> py_int b = Some n"
  then have "split_on CHR ''/'' (a @ ''/'' @ b) = [a, b]"
    using split_on_two [of "CHR ''/''" a b] by simp
  with h show "flute_counts (a @ ''/'' @ b) = Inr (m, n)"
    by (simp add: flute_counts_def)
next
  assume h: "CHR ''/'' \<notin> set s \<and> py_int s = Some k"
  then have "s \<noteq> []" by (auto simp: py_int_def strip_def)
  with h show "flute_counts s = Inr (k, 1)" by (simp add: flute_counts_def)
next
  assume "CHR ''/'' \<in> set s \<and> (\<exists>p \<in> set (split_on CHR ''/'' s). py_int p = None)"
  then show "flute_counts s = Inl (Status 202)"
    using flute_counts_bad_part by blast
next
  assume "CHR ''/'' \<notin> set s \<and> s \<noteq> '''' \<and> py_int s = None"
  then show "flute_counts s = Inl (Status 203)" by (simp add: flute_counts_def)
qed

theorem flute_count_parsing_witness:
  "flute_counts ''12/7'' = Inr (12, 7) \<and> flute_counts ''3'' = Inr (3, 1)
   \<and> flute_counts ''8/x'' = Inl (Status 202) \<and> flute_counts ''x'' = Inl (Status 203)"
  using flute_count_parsing [of "''12''" "''7''" 12 7 "''3''" 3]
    flute_count_parsing [of "''12''" "''7''" 12 7 "''8/x''" 3]
    flute_count_parsing [of "''12''" "''7''" 12 7 "''x''" 3]
  by (simp add: py_int_eval)

subsection \<open>Family classification\<close>

lemma bur_cut_loop_find:
  "bur_cut_loop cuts sd sp =
     map_option (\<lambda>c. (c, sp \<or> ''SPIRAL'' \<in> set sd)) (find (\<lambda>c. c \<in> set sd) cuts)"
  by (induction cuts arbitrary: sp) (auto simp: Let_def)

text \<open>
  Claim C3. The rules of \<open>get_family\<close> apply in a fixed order and the first match wins:
  the endmill set gives EM, then the wood-router set WR, the drill set DRILL, the
  file/burr-grinder set FBGR with the first description token as end type, the O-flute set
  O-FLUTE and the compression-router set WR COMP (both router families); otherwise a base
  description that contains a bur-family substring and not "DRILL" gives BUR with the first
  cut-type token of the taxonomy's list that is among the description tokens, or error 302
  when none is; with no rule matching the result is error 301. EM, WR, DRILL, O-FLUTE and
  WR COMP all take the rate table "SQ EM" as reference family.
\<close>

theorem get_family_rule_order:
  "(b \<in> set (EM_LIST tt) \<longrightarrow>
      get_family tt b sd = Inr \<lparr>fi_family = ''EM'', fi_ref_family = ''SQ EM'', fi_end_type = '''',
        fi_bur_cut = '''', fi_spiral = False\<rparr>)
   \<and> (b \<notin> set (EM_LIST tt) \<and> b \<in> set (WR_LIST tt) \<longrightarrow>
      get_family tt b sd = Inr \<lparr>fi_family = ''WR'', fi_ref_family = ''SQ EM'', fi_end_type = '''',
        fi_bur_cut = '''', fi_spiral = False\<rparr>)
   \<and> (b \<notin> set (EM_LIST tt) \<and> b \<notin> set (WR_LIST tt) \<and> b \<in> set (DRILL_LIST tt) \<longrightarrow>
      get_family tt b sd = Inr \<lparr>fi_family = ''DRILL'', fi_ref_family = ''SQ EM'',
        fi_end_type = '''', fi_bur_cut = '''', fi_spiral = False\<rparr>)
   \<and> (b \<notin> set (EM_LIST tt) \<and> b \<notin> set (WR_LIST tt) \<and> b \<notin> set (DRILL_LIST tt)
       \<and> b \<in> set (FBGR_LIST tt) \<and> sd = w # ws \<longrightarrow>
      get_family tt b sd = Inr \<lparr>fi_family = ''FBGR'', fi_ref_family = ''BUR'', fi_end_type = w,
        fi_bur_cut = '''', fi_spiral = False\<rparr>)
   \<and> (b \<notin> set (EM_LIST tt) \<and> b \<notin> set (WR_LIST tt) \<and> b \<notin> set (DRILL_LIST tt)
       \<and> b \<notin> set (FBGR_LIST tt) \<and> b \<in> set (O_FLUTE_LIST tt) \<longrightarrow>
      get_family tt b sd = Inr \<lparr>fi_family = ''O-FLUTE'', fi_ref_family = ''SQ EM'',
        fi_end_type = '''', fi_bur_cut = '''', fi_spiral = False\<rparr>
      \<and> ''O-FLUTE'' \<in> set ROUTER_FAM)
   \<and> (b \<notin> set (EM_LIST tt) \<and> b \<notin> set (WR_LIST tt) \<and> b \<notin> set (DRILL_LIST tt)
       \<and> b \<notin> set (FBGR_LIST tt) \<and> b \<notin> set (O_FLUTE_LIST tt) \<and> b \<in> set (WR_COMP_LIST tt) \<longrightarrow>
      get_family tt b sd = Inr \<lparr>fi_family = ''WR COMP'', fi_ref_family = ''SQ EM'',
        fi_end_type = '''', fi_bur_cut = '''', fi_spiral = False\<rparr>
      \<and> ''WR COMP'' \<in> set ROUTER_FAM)
   \<and> (b \<notin> set (EM_LIST tt) \<and> b \<notin> set (WR_LIST tt) \<and> b \<notin> set (DRILL_LIST tt)
       \<and> b \<notin> set (FBGR_LIST tt) \<and> b \<notin> set (O_FLUTE_LIST tt) \<and> b \<notin> set (WR_COMP_LIST tt)
       \<and> (\<exists>x \<in> set (BUR_LIST tt). py_in x b) \<and> \<not> py_in ''DRILL'' b
       \<and> find (\<lambda>c. c \<in> set sd) (BUR_CUT_LIST tt) = Some c \<longrightarrow>
      get_family tt b sd = Inr \<lparr>fi_family = ''BUR'', fi_ref_family = ''BUR'', fi_end_type = '''',
        fi_bur_cut = c, fi_spiral = (''SPIRAL'' \<in> set sd)\<rparr>)
   \<and> (b \<notin> set (EM_LIST tt) \<and> b \<notin> set (WR_LIST tt) \<and> b \<notin> set (DRILL_LIST tt)
       \<and> b \<notin> set (FBGR_LIST tt) \<and> b \<notin> set (O_FLUTE_LIST tt) \<and> b \<notin> set (WR_COMP_LIST tt)
       \<and> (\<exists>x \<in> set (BUR_LIST tt). py_in x b) \<and> \<not> py_in ''DRILL'' b
       \<and> find (\<lambda>c. c \<in> set sd) (BUR_CUT_LIST tt) = None \<longrightarrow>
      get_family tt b sd = Inl (Status 302))
   \<and> (b \<notin> set (EM_LIST tt) \<and> b \<notin> set (WR_LIST tt) \<and> b \<notin> set (DRILL_LIST tt)
       \<and> b \<notin> set (FBGR_LIST tt) \<and> b \<notin> set (O_FLUTE_LIST tt) \<and> b \<notin> set (WR_COMP_LIST tt)
       \<and> \<not> ((\<exists>x \<in> set (BUR_LIST tt). py_in x b) \<and> \<not> py_in ''DRILL'' b) \<longrightarrow>
      get_family tt b sd = Inl (Status 301))"
proof (intro conjI impI)
  assume "b \<notin> set (EM_LIST tt) \<and> b \<notin> set (WR_LIST tt) \<and> b \<notin> set (DRILL_LIST tt)
       \<and> b \<notin> set (FBGR_LIST tt) \<and> b \<notin> set (O_FLUTE_LIST tt) \<and> b \<notin> set (WR_COMP_LIST tt)
       \<and> (\<exists>x \<in> set (BUR_LIST tt). py_in x b) \<and> \<not> py_in ''DRILL'' b
       \<and> find (\<lambda>c. c \<in> set sd) (BUR_CUT_LIST tt) = Some c"
  then show "get_family tt b sd = Inr \<lparr>fi_family = ''BUR'', fi_ref_family = ''BUR'',
        fi_end_type = '''', fi_bur_cut = c, fi_spiral = (''SPIRAL'' \<in> set sd)\<rparr>"
    by (simp add: get_family_def bur_cut_loop_find)
next
  assume "b \<notin> set (EM_LIST tt) \<and> b \<notin> set (WR_LIST tt) \<and> b \<notin> set (DRILL_LIST tt)
       \<and> b \<notin> set (FBGR_LIST tt) \<and> b \<notin> set (O_FLUTE_LIST tt) \<and> b \<notin> set (WR_COMP_LIST tt)
       \<and> (\<exists>x \<in> set (BUR_LIST tt). py_in x b) \<and> \<not> py_in ''DRILL'' b
       \<and> find (\<lambda>c. c \<in> set sd) (BUR_CUT_LIST tt) = None"
  then show "get_family tt b sd = Inl (Status 302)"
    by (simp add: get_family_def bur_cut_loop_find)
qed (auto simp: get_family_def ROUTER_FAM_def)

theorem get_family_rule_order_witness:
  "get_family example_tool_types ''SQ EM'' [''SQ'', ''EM''] = Inr \<lparr>fi_family = ''EM'', fi_ref_family = ''SQ EM'',
      fi_end_type = '''', fi_bur_cut = '''', fi_spiral = False\<rparr>
   \<and> get_family example_tool_types ''WR'' [''WR''] = Inr \<lparr>fi_family = ''WR'', fi_ref_family = ''SQ EM'',
      fi_end_type = '''', fi_bur_cut = '''', fi_spiral = False\<rparr>
   \<and> get_family example_tool_types ''DRILL'' [''DRILL''] = Inr \<lparr>fi_family = ''DRILL'', fi_ref_family = ''SQ EM'',
      fi_end_type = '''', fi_bur_cut = '''', fi_spiral = False\<rparr>
   \<and> get_family example_tool_types ''FBGR'' [''PLAIN'', ''FBGR''] = Inr \<lparr>fi_family = ''FBGR'',
      fi_ref_family = ''BUR'', fi_end_type = ''PLAIN'', fi_bur_cut = '''', fi_spiral = False\<rparr>
   \<and> get_family example_tool_types ''O-FLUTE WR'' [''O-FLUTE'', ''WR''] = Inr \<lparr>fi_family = ''O-FLUTE'',
      fi_ref_family = ''SQ EM'', fi_end_type = '''', fi_bur_cut = '''', fi_spiral = False\<rparr>
   \<and> get_family example_tool_types ''COMP WR'' [''COMP'', ''WR''] = Inr \<lparr>fi_family = ''WR COMP'',
      fi_ref_family = ''SQ EM'', fi_end_type = '''', fi_bur_cut = '''', fi_spiral = False\<rparr>
   \<and> get_family example_tool_types ''OVAL'' [''OVAL'', ''SC'', ''DC''] = Inr \<lparr>fi_family = ''BUR'',
      fi_ref_family = ''BUR'', fi_end_type = '''', fi_bur_cut = ''DC'', fi_spiral = False\<rparr>
   \<and> get_family example_tool_types ''OVAL'' [''OVAL''] = Inl (Status 302)
   \<and> get_family example_tool_types ''CONE'' [''CONE'', ''DC''] = Inl (Status 301)"
  using get_family_rule_order [of "''SQ EM''" example_tool_types "[''SQ'', ''EM'']" "''SQ''" "[''EM'']" "''DC''"]
    get_family_rule_order [of "''WR''" example_tool_types "[''WR'']" "''WR''" "[]" "''DC''"]
    get_family_rule_order [of "''DRILL''" example_tool_types "[''DRILL'']" "''DRILL''" "[]" "''DC''"]
    get_family_rule_order [of "''FBGR''" example_tool_types "[''PLAIN'', ''FBGR'']" "''PLAIN''" "[''FBGR'']" "''DC''"]
    get_family_rule_order [of "''O-FLUTE WR''" example_tool_types "[''O-FLUTE'', ''WR'']" "''O-FLUTE''" "[''WR'']" "''DC''"]
    get_family_rule_order [of "''COMP WR''" example_tool_types "[''COMP'', ''WR'']" "''COMP''" "[''WR'']" "''DC''"]
    get_family_rule_order [of "''OVAL''" example_tool_types "[''OVAL'', ''SC'', ''DC'']" "''OVAL''" "[''SC'', ''DC'']" "''DC''"]
    get_family_rule_order [of "''OVAL''" example_tool_types "[''OVAL'']" "''OVAL''" "[]" "''DC''"]
    get_family_rule_order [of "''CONE''" example_tool_types "[''CONE'', ''DC'']" "''CONE''" "[''DC'']" "''DC''"]
  by (simp add: example_tool_types_def)

subsection \<open>The request handler\<close>

lemma lambda_handler_Success:
  assumes "lambda_handler ns gtd ev = Success d"
  shows "\<exists>rq tool feature det.
           gtd rq = Inr (tool, feature, det)
           \<and> rq_args rq = (case ev_args ev of Some a \<Rightarrow> a | None \<Rightarrow> [])
           \<and> rq_kwargs rq = (case ev_kwargs ev of Some kw \<Rightarrow> kw | None \<Rightarrow> [])
           \<and> d = \<lparr>statusCode = 900,
                  PartNumber = (case ev_kwargs ev of Some kw \<Rightarrow> scan_part_num ns kw | None \<Rightarrow> ''''),
                  Diameter = cut_diameter tool, LOC = length_of_cut tool,
                  ShankDiameter = shank_diameter tool, OAL = overall_length tool,
                  FluteCount = flute_count tool, Description = full_description tool,
                  Family = tool_family tool, PrepType = prep_type tool,
                  CycleTime = fluting_cycle_time tool, PrepTime = prep_cycle_time tool,
                  TotalCycleTime = py_round (fluting_cycle_time tool + prep_cycle_time tool) 3,
                  Detail = det\<rparr>"
  using assms unfolding lambda_handler_def Let_def
  by (fastforce split: option.splits if_splits sum.splits error.splits prod.splits)

text \<open>
  Claim C1. A request that completes successfully answers with status 900, and the
  \<open>TotalCycleTime\<close> of the answer is \<open>round(CycleTime + PrepTime, 3)\<close>, where \<open>CycleTime\<close> and
  \<open>PrepTime\<close> are the fluting and the prep cycle time of the tool record that the
  calculation returned.
\<close>

theorem total_cycle_time_rounded_sum:
  assumes "lambda_handler num_str get_tool_detail ev = Success d"
  shows "statusCode d = 900
         \<and> TotalCycleTime d = py_round (CycleTime d + PrepTime d) 3
         \<and> (\<exists>rq tool feature det.
               get_tool_detail rq = Inr (tool, feature, det)
               \<and> CycleTime d = fluting_cycle_time tool \<and> PrepTime d = prep_cycle_time tool)"
proof -
  from lambda_handler_Success [OF assms] obtain rq tool feature det where
    "get_tool_detail rq = Inr (tool, feature, det)"
    "statusCode d = 900" "CycleTime d = fluting_cycle_time tool"
    "PrepTime d = prep_cycle_time tool"
    "TotalCycleTime d = py_round (fluting_cycle_time tool + prep_cycle_time tool) 3"
    by auto
  then show ?thesis by auto
qed

lemma example_handler:
  "lambda_handler ns example_detail example_event =
     Success \<lparr>statusCode = 900, PartNumber = '''', Diameter = 0, LOC = 0, ShankDiameter = 0,
       OAL = 0, FluteCount = '''', Description = '''', Family = '''', PrepType = '''',
       CycleTime = 2.489, PrepTime = 6.965, TotalCycleTime = 9.454, Detail = ''OVAL DC''\<rparr>"
  by (simp add: lambda_handler_def example_event_def example_detail_def ToolInfo_default_def
      blank_to_zero_def scan_part_num_def lower_def lower_char_def py_round_eval)

theorem total_cycle_time_rounded_sum_witness:
  "\<exists>d. lambda_handler (\<lambda>x. ''0'') example_detail example_event = Success d
       \<and> TotalCycleTime d = 9.454 \<and> CycleTime d = 2.489 \<and> PrepTime d = 6.965"
  using total_cycle_time_rounded_sum [OF example_handler [of "\<lambda>x. ''0''"]] example_handler [of "\<lambda>x. ''0''"]
  by simp

lemma apply_kwargs_append:
  "apply_kwargs ns fos (xs @ ys) tool =
     (case apply_kwargs ns fos xs tool of
        Inl e \<Rightarrow> Inl e
      | Inr tool' \<Rightarrow> apply_kwargs ns fos ys tool')"
  by (induction xs arbitrary: tool) (auto split: sum.splits)

lemma apply_kwarg_other_key:
  "apply_kwarg ns fos kv tool = Inr tool' \<Longrightarrow> upper (fst kv) \<noteq> ''PART_NUM''
     \<Longrightarrow> part_number tool' = part_number tool"
  by (auto simp: apply_kwarg_def Let_def split: if_splits option.splits)

lemma apply_kwargs_other_keys:
  "apply_kwargs ns fos kw tool = Inr tool' \<Longrightarrow> \<forall>kv \<in> set kw. upper (fst kv) \<noteq> ''PART_NUM''
     \<Longrightarrow> part_number tool' = part_number tool"
proof (induction kw arbitrary: tool)
  case Nil
  then show ?case by simp
next
  case (Cons kv kw)
  then obtain t1 where t1: "apply_kwarg ns fos kv tool = Inr t1"
    and rest: "apply_kwargs ns fos kw t1 = Inr tool'"
    by (auto split: sum.splits)
  from Cons.prems(2) have "upper (fst kv) \<noteq> ''PART_NUM''" by simp
  with t1 have "part_number t1 = part_number tool" by (rule apply_kwarg_other_key)
  moreover from Cons.IH [OF rest] Cons.prems(2) have "part_number tool' = part_number t1"
    by simp
  ultimately show ?case by simp
qed

lemma apply_kwargs_part_num:
  assumes "apply_kwargs ns fos (pre @ (k, v) # post) tool = Inr tool'"
    and "upper k = ''PART_NUM''"
    and "\<forall>kv \<in> set post. upper (fst kv) \<noteq> ''PART_NUM''"
  shows "part_number tool' = py_str ns v"
proof -
  from assms(1) obtain t1 where t1: "apply_kwargs ns fos pre tool = Inr t1"
    and r: "apply_kwargs ns fos ((k, v) # post) t1 = Inr tool'"
    by (auto simp: apply_kwargs_append split: sum.splits)
  from r assms(2) have "apply_kwargs ns fos post (t1\<lparr>part_number := py_str ns v\<rparr>) = Inr tool'"
    by (simp add: apply_kwarg_def)
  from apply_kwargs_other_keys [OF this assms(3)] show ?thesis by simp
qed

lemma part_num_first_key:
  assumes "lambda_handler num_str get_tool_detail ev = Success d" and "PartNumber d \<noteq> ''''"
  shows "\<exists>k v rest. ev_kwargs ev = Some ((k, v) # rest) \<and> lower k = ''part_num''
         \<and> PartNumber d = py_str num_str v"
proof -
  from lambda_handler_Success [OF assms(1)]
  have "PartNumber d =
      (case ev_kwargs ev of Some kw \<Rightarrow> scan_part_num num_str kw | None \<Rightarrow> '''')"
    by auto
  with assms(2) show ?thesis
    by (auto simp: scan_part_num_def split: option.splits list.splits if_splits)
qed

lemma part_num_later_key:
  assumes "lambda_handler num_str get_tool_detail ev = Success d"
    and "ev_kwargs ev = Some ((k0, v0) # rest)" and "lower k0 \<noteq> ''part_num''"
  shows "PartNumber d = ''''"
proof -
  from lambda_handler_Success [OF assms(1)]
  have "PartNumber d =
      (case ev_kwargs ev of Some kw \<Rightarrow> scan_part_num num_str kw | None \<Rightarrow> '''')"
    by auto
  with assms(2,3) show ?thesis by (simp add: scan_part_num_def)
qed

text \<open>
  Claim C10. The scan of \<open>kwargs\<close> in the handler looks at the first entry only. So the
  \<open>PartNumber\<close> of a successful answer is non-empty only when the first key of \<open>kwargs\<close> is
  \<open>part_num\<close> in some letter case (and is then that entry's value); and when the first key
  is another one and a \<open>PART_NUM\<close> entry follows, the answer's \<open>PartNumber\<close> is empty,
  although the loop of \<open>get_tool_detail\<close> over the same \<open>kwargs\<close> writes that entry's value
  to the tool record's part number.
\<close>

theorem part_number_echo:
  "(lambda_handler num_str get_tool_detail ev = Success d \<and> PartNumber d \<noteq> '''' \<longrightarrow>
      (\<exists>k v rest. ev_kwargs ev = Some ((k, v) # rest) \<and> lower k = ''part_num''
         \<and> PartNumber d = py_str num_str v))
   \<and> (lambda_handler num_str get_tool_detail ev = Success d
       \<and> ev_kwargs ev = Some ((k0, v0) # pre @ (k, v) # post)
       \<and> lower k0 \<noteq> ''part_num'' \<and> upper k = ''PART_NUM''
       \<and> (\<forall>kv \<in> set post. upper (fst kv) \<noteq> ''PART_NUM'')
       \<and> apply_kwargs num_str float_of_str ((k0, v0) # pre @ (k, v) # post) tool = Inr tool' \<longrightarrow>
      PartNumber d = '''' \<and> part_number tool' = py_str num_str v)"
proof (intro conjI impI)
  assume "lambda_handler num_str get_tool_detail ev = Success d \<and> PartNumber d \<noteq> ''''"
  then show "\<exists>k v rest. ev_kwargs ev = Some ((k, v) # rest) \<and> lower k = ''part_num''
         \<and> PartNumber d = py_str num_str v"
    using part_num_first_key by blast
next
  assume "lambda_handler num_str get_tool_detail ev = Success d
       \<and> ev_kwargs ev = Some ((k0, v0) # pre @ (k, v) # post)
       \<and> lower k0 \<noteq> ''part_num'' \<and> upper k = ''PART_NUM''
       \<and> (\<forall>kv \<in> set post. upper (fst kv) \<noteq> ''PART_NUM'')
       \<and> apply_kwargs num_str float_of_str ((k0, v0) # pre @ (k, v) # post) tool = Inr tool'"
  then show "PartNumber d = ''''"
    using part_num_later_key by blast
next
  assume h: "lambda_handler num_str get_tool_detail ev = Success d
       \<and> ev_kwargs ev = Some ((k0, v0) # pre @ (k, v) # post)
       \<and> lower k0 \<noteq> ''part_num'' \<and> upper k = ''PART_NUM''
       \<and> (\<forall>kv \<in> set post. upper (fst kv) \<noteq> ''PART_NUM'')
       \<and> apply_kwargs num_str float_of_str ((k0, v0) # pre @ (k, v) # post) tool = Inr tool'"
  then have "apply_kwargs num_str float_of_str (((k0, v0) # pre) @ (k, v) # post) tool
      = Inr tool'"
    by simp
  from apply_kwargs_part_num [OF this] h show "part_number tool' = py_str num_str v"
    by blast
qed

lemma example_kwargs:
  "apply_kwargs ns fos [(''MATERIAL'', VStr ''SOLID''), (''PART_NUM'', VStr ''101-101'')]
     ToolInfo_default = Inr (ToolInfo_default\<lparr>material := ''SOLID'', part_number := ''101-101''\<rparr>)"
  by (simp add: apply_kwarg_def upper_def upper_char_def)

theorem part_number_echo_witness:
  "\<exists>d tool'. lambda_handler (\<lambda>x. ''0'') example_detail example_event = Success d
     \<and> PartNumber d = ''''
     \<and> apply_kwargs (\<lambda>x. ''0'') (\<lambda>s. None)
          [(''MATERIAL'', VStr ''SOLID''), (''PART_NUM'', VStr ''101-101'')] ToolInfo_default
        = Inr tool'
     \<and> part_number tool' = ''101-101''
     \<and> lambda_handler (\<lambda>x. ''0'') example_detail
          (example_event\<lparr>ev_kwargs := Some [(''Part_Num'', VStr ''101-101'')]\<rparr>)
        = Success (d\<lparr>PartNumber := ''101-101''\<rparr>)"
proof -
  let ?ns = "\<lambda>x::rat. ''0''"
  let ?d = "\<lparr>statusCode = 900, PartNumber = '''', Diameter = 0, LOC = 0, ShankDiameter = 0,
       OAL = 0, FluteCount = '''', Description = '''', Family = '''', PrepType = '''',
       CycleTime = 2.489, PrepTime = 6.965, TotalCycleTime = 9.454, Detail = ''OVAL DC''\<rparr>"
  let ?ev2 = "example_event\<lparr>ev_kwargs := Some [(''Part_Num'', VStr ''101-101'')]\<rparr>"
  have e2: "lambda_handler ?ns example_detail ?ev2 = Success (?d\<lparr>PartNumber := ''101-101''\<rparr>)"
    by (simp add: lambda_handler_def example_event_def example_detail_def ToolInfo_default_def
      blank_to_zero_def scan_part_num_def lower_def lower_char_def py_round_eval)
  have k: "ev_kwargs example_event
      = Some ((''MATERIAL'', VStr ''SOLID'') # [] @ (''PART_NUM'', VStr ''101-101'') # [])"
    by (simp add: example_event_def)
  have l: "lower ''MATERIAL'' \<noteq> ''part_num''" "upper ''PART_NUM'' = ''PART_NUM''"
    by (simp_all add: lower_def lower_char_def upper_def upper_char_def)
  from part_number_echo [of ?ns example_detail example_event ?d "''MATERIAL''" "VStr ''SOLID''"
      "[]" "''PART_NUM''" "VStr ''101-101''" "[]" "\<lambda>s. None" ToolInfo_default
      "ToolInfo_default\<lparr>material := ''SOLID'', part_number := ''101-101''\<rparr>"]
    example_handler [of ?ns] k l example_kwargs [of ?ns "\<lambda>s. None"]
  have "PartNumber ?d = ''''
      \<and> part_number (ToolInfo_default\<lparr>material := ''SOLID'', part_number := ''101-101''\<rparr>)
          = ''101-101''"
    by simp
  with example_handler [of ?ns] example_kwargs [of ?ns "\<lambda>s. None"] e2
  show ?thesis by auto
qed

subsection \<open>The endmill branch\<close>

lemma dia_cutoff_value: "dia_cutoff = 0.1181"
  by (simp add: dia_cutoff_def py_round_eval)

lemma foldl_keeps:
  assumes "\<And>v e. f (g v e) = f v"
  shows "f (foldl g v es) = f v"
  by (induction es arbitrary: v) (simp_all add: assms)

lemma add_inc_fields [simp]:
  "v_calc_fl_time (add_inc x v) = v_calc_fl_time v"
  "v_calc_od_time (add_inc x v) = v_calc_od_time v"
  "v_tert_od_angle (add_inc x v) = v_tert_od_angle v"
  "v_sec_od_angle (add_inc x v) = v_sec_od_angle v"
  "v_loc (add_inc x v) = v_loc v"
  by (simp_all add: add_inc_def)

lemma em_shape_rule_times:
  "v_calc_fl_time (em_shape_rule d n v e) = v_calc_fl_time v"
  "v_calc_od_time (em_shape_rule d n v e) = v_calc_od_time v"
  "v_tert_od_angle (em_shape_rule d n v e) = v_tert_od_angle v"
  by (cases e; simp add: em_shape_rule_def)+

lemma em_shape_times:
  "v_calc_fl_time (em_shape d c n v) = v_calc_fl_time v"
  "v_calc_od_time (em_shape d c n v) = v_calc_od_time v"
  "v_tert_od_angle (em_shape d c n v) = v_tert_od_angle v"
  unfolding em_shape_def Let_def
  by (simp_all add: foldl_keeps [where f = v_calc_fl_time] foldl_keeps [where f = v_calc_od_time]
      foldl_keeps [where f = v_tert_od_angle] em_shape_rule_times)

lemma perf_rule_times:
  "v_calc_fl_time (perf_rule d v ps) = v_calc_fl_time v"
  "v_calc_od_time (perf_rule d v ps) = v_calc_od_time v"
  "v_tert_od_angle (perf_rule d v ps) = v_tert_od_angle v"
  "v_sec_od_angle (perf_rule d v ps) = v_sec_od_angle v"
  by (simp_all add: perf_rule_def)

lemma check_performance_series_times:
  "v_calc_fl_time (check_performance_series ps d v) = v_calc_fl_time v"
  "v_calc_od_time (check_performance_series ps d v) = v_calc_od_time v"
  "v_tert_od_angle (check_performance_series ps d v) = v_tert_od_angle v"
  "v_sec_od_angle (check_performance_series ps d v) = v_sec_od_angle v"
  unfolding check_performance_series_def
  by (simp_all add: foldl_keeps [where f = v_calc_fl_time] foldl_keeps [where f = v_calc_od_time]
      foldl_keeps [where f = v_tert_od_angle] foldl_keeps [where f = v_sec_od_angle]
      perf_rule_times)

lemma em_rougher_fields [simp]:
  "v_calc_fl_time (em_rougher d v) = v_calc_fl_time v"
  "v_calc_od_time (em_rougher d v) = v_calc_od_time v"
  "v_tert_od_angle (em_rougher d v) = v_tert_od_angle v"
  "v_sec_od_angle (em_rougher d v) = v_sec_od_angle v"
  by (simp_all add: em_rougher_def)

lemma em_straight_flute_fields [simp]:
  "v_calc_fl_time (em_straight_flute d fam v) = v_calc_fl_time v"
  "v_calc_od_time (em_straight_flute d fam v) = v_calc_od_time v"
  "v_tert_od_angle (em_straight_flute d fam v) = v_tert_od_angle v"
  "v_sec_od_angle (em_straight_flute d fam v) = v_sec_od_angle v"
  by (simp_all add: em_straight_flute_def)

lemma em_router_fields [simp]:
  "v_calc_fl_time (em_router d fam n v) = v_calc_fl_time v"
  "v_calc_od_time (em_router d fam n v) = v_calc_od_time v"
  "v_tert_od_angle (em_router d fam n v) = v_tert_od_angle v"
  "v_sec_od_angle (em_router d fam n v) = v_sec_od_angle v"
  by (simp_all add: em_router_def Let_def)

lemma drill_small_fields [simp]:
  "v_calc_fl_time (drill_small c v) = v_calc_fl_time v"
  "v_tert_od_angle (drill_small c v) = v_tert_od_angle v"
  "v_sec_od_angle (drill_small c v) = v_sec_od_angle v"
  by (simp_all add: drill_small_def Let_def)

lemma drill_kind_fields [simp]:
  "v_calc_fl_time (drill_kind d c v) = v_calc_fl_time v"
  "v_tert_od_angle (drill_kind d c v) = v_tert_od_angle v"
  "v_sec_od_angle (drill_kind d c v) = v_sec_od_angle v"
  by (simp_all add: drill_kind_def)

lemma drill_short_fields [simp]:
  "v_calc_fl_time (drill_short d c v) = v_calc_fl_time v"
  "v_tert_od_angle (drill_short d c v) = v_tert_od_angle v"
  "v_sec_od_angle (drill_short d c v) = v_sec_od_angle v"
  by (simp_all add: drill_short_def)

lemma drill_large_fields [simp]:
  "v_calc_fl_time (drill_large c v) = v_calc_fl_time v"
  "v_tert_od_angle (drill_large c v) = v_tert_od_angle v"
  "v_sec_od_angle (drill_large c v) = v_sec_od_angle v"
  by (simp_all add: drill_large_def)

lemma drill_spade_fields [simp]:
  "v_tert_od_angle (drill_spade c v) = v_tert_od_angle v"
  "v_sec_od_angle (drill_spade c v) = v_sec_od_angle v"
  by (simp_all add: drill_spade_def Let_def)

lemma em_drill_angles [simp]:
  "v_tert_od_angle (em_drill d c v) = v_tert_od_angle v"
  "v_sec_od_angle (em_drill d c v) = v_sec_od_angle v"
  by (simp_all add: em_drill_def Let_def)


lemma em_family_tert: "v_tert_od_angle (em_family d fam c n v) = v_tert_od_angle v"
  by (simp add: em_family_def em_reamer_drill_def)

lemma em_family_sec: "v_sec_od_angle (em_family d fam c n v) = v_sec_od_angle v"
  by (simp add: em_family_def em_reamer_drill_def)


lemma em_family_od_time:
  "\<not> (fam = ''DRILL'' \<and> \<not> py_in ''REAMER'' d)
     \<Longrightarrow> v_calc_od_time (em_family d fam c n v) = v_calc_od_time v"
  by (auto simp: em_family_def em_reamer_drill_def)




lemma em_branch_parts:
  assumes "em_branch PERF_LIST feature d sd fam row_values cut_dia loc n = Inr (v, t)"
  obtains loc1 inc fl od en ga v0 where
    "em_prepare d sd cut_dia loc = Inr (loc1, inc)"
    "em_base_times row_values cut_dia loc1 n = Inr (fl, od, en, ga)"
    "v_calc_fl_time v0 = fl" "v_calc_od_time v0 = od"
    "v_tert_od_angle v0 = tert_od_angle feature"
    "v = em_od_angles d
           (if performance feature
            then check_performance_series PERF_LIST d
                   (em_family d fam cut_dia n (em_shape d cut_dia n v0))
            else em_family d fam cut_dia n (em_shape d cut_dia n v0))"
proof -
  from assms obtain loc1 inc where p: "em_prepare d sd cut_dia loc = Inr (loc1, inc)"
    unfolding em_branch_def and_then_def by (auto split: sum.splits)
  with assms obtain fl od en ga where
    b: "em_base_times row_values cut_dia loc1 n = Inr (fl, od, en, ga)"
    unfolding em_branch_def and_then_def by (auto split: sum.splits)
  define v0 where "v0 = \<lparr>v_loc = loc1, v_inc_percentage = inc, v_split = notch feature,
      v_sec_od_angle = False, v_tert_od_angle = tert_od_angle feature, v_sec_inc = 0,
      v_end_time = end_time feature, v_calc_fl_time = fl, v_calc_od_time = od,
      v_calc_end_time = en, v_calc_gash_time = ga, v_end_split_time = end_split_ct row_values\<rparr>"
  from assms p b have "v = em_od_angles d
           (if performance feature
            then check_performance_series PERF_LIST d
                   (em_family d fam cut_dia n (em_shape d cut_dia n v0))
            else em_family d fam cut_dia n (em_shape d cut_dia n v0))"
    unfolding em_branch_def and_then_def Let_def v0_def by (auto split: sum.splits)
  moreover have "v_calc_fl_time v0 = fl" "v_calc_od_time v0 = od"
    "v_tert_od_angle v0 = tert_od_angle feature"
    by (simp_all add: v0_def)
  ultimately show ?thesis using p b that by blast
qed


lemmas py_text_eval = upper_def upper_char_def lower_def lower_char_def

lemmas em_eval = em_branch_def em_prepare_def em_base_times_def em_shape_def EM_MAP_def
  em_shape_rule_def em_family_def em_rougher_def em_straight_flute_def em_router_def
  em_reamer_drill_def em_drill_def drill_spade_def drill_small_def drill_kind_def
  drill_short_def drill_large_def check_performance_series_def perf_rule_def
  em_od_angles_def od_tert_needs_sec_def od_none_def od_staggered_def drop_end_def
  drop_split_def od_factor_def em_fluting_time_def add_inc_def and_then_def np_div_def
  float_div_def chk_mirror_finish_def dynamic_variable_def dia_cutoff_value ROUTER_FAM_def
  InputArgData_default_def

lemma example_base_times_2:
  "em_base_times example_row (1 / 4) (1 / 2) 2 = Inr (5 / 2, 5 / 4, 5 / 4, 5 / 4)"
  by (simp add: em_base_times_def and_then_def np_div_def dynamic_variable_def example_row_def)


lemma example_branch:
  "em_branch [] (InputArgData_default\<lparr>tert_od_angle := tert\<rparr>) ''SQ EM''
       [''2FL'', ''SQ'', ''EM''] ''EM'' example_row (1 / 4) (1 / 2) 2 =
     Inr (\<lparr>v_loc = 1 / 2, v_inc_percentage = 1, v_split = False, v_sec_od_angle = True,
           v_tert_od_angle = tert, v_sec_inc = 0, v_end_time = False,
           v_calc_fl_time = 5 / 2, v_calc_od_time = (if tert then 15 / 4 else 5 / 2),
           v_calc_end_time = 0, v_calc_gash_time = 0, v_end_split_time = 0\<rparr>,
          (if tert then 25 / 4 else 5))"
  by (simp add: em_eval py_text_eval example_row_def)


lemma em_od_angles_od_time:
  "v_calc_od_time (em_od_angles d v) =
     (if py_in ''STAGGERED'' (upper d) then 0
      else v_calc_od_time v
           * (if v_sec_od_angle v then (if v_tert_od_angle v then 3 else 2) else 1))"
  by (simp add: em_od_angles_def od_factor_def drop_split_def drop_end_def od_staggered_def
      od_none_def od_tert_needs_sec_def)

lemma em_od_angles_sec:
  "v_sec_od_angle (em_od_angles d v) =
     (v_sec_od_angle v \<and> v_calc_od_time v \<noteq> 0 \<and> \<not> py_in ''STAGGERED'' (upper d))"
  by (simp add: em_od_angles_def od_factor_def drop_split_def drop_end_def od_staggered_def
      od_none_def od_tert_needs_sec_def)

lemma em_od_angles_tert:
  "v_tert_od_angle (em_od_angles d v) =
     (v_tert_od_angle v \<and> v_sec_od_angle v \<and> v_calc_od_time v \<noteq> 0
      \<and> \<not> py_in ''STAGGERED'' (upper d))"
  by (auto simp: em_od_angles_def od_factor_def drop_split_def drop_end_def od_staggered_def
      od_none_def od_tert_needs_sec_def)

lemma em_branch_od_time:
  assumes "em_branch PERF_LIST feature d sd fam row_values cut_dia loc n = Inr (v, t)"
    and "\<not> (fam = ''DRILL'' \<and> \<not> py_in ''REAMER'' d)"
    and "\<not> py_in ''STAGGERED'' (upper d)"
  shows "\<exists>loc1 inc fl od en ga.
           em_prepare d sd cut_dia loc = Inr (loc1, inc)
           \<and> em_base_times row_values cut_dia loc1 n = Inr (fl, od, en, ga)
           \<and> v_calc_od_time v =
               od * (if v_sec_od_angle v then (if tert_od_angle feature then 3 else 2) else 1)
           \<and> (v_tert_od_angle v \<longrightarrow> tert_od_angle feature \<and> v_sec_od_angle v)"
proof -
  from assms(1) obtain loc1 inc fl od en ga v0 where
    p: "em_prepare d sd cut_dia loc = Inr (loc1, inc)"
    and bt: "em_base_times row_values cut_dia loc1 n = Inr (fl, od, en, ga)"
    and v0: "v_calc_od_time v0 = od" "v_tert_od_angle v0 = tert_od_angle feature"
    and v: "v = em_od_angles d
           (if performance feature
            then check_performance_series PERF_LIST d
                   (em_family d fam cut_dia n (em_shape d cut_dia n v0))
            else em_family d fam cut_dia n (em_shape d cut_dia n v0))"
    by (rule em_branch_parts)
  define v3 where "v3 = (if performance feature
            then check_performance_series PERF_LIST d
                   (em_family d fam cut_dia n (em_shape d cut_dia n v0))
            else em_family d fam cut_dia n (em_shape d cut_dia n v0))"
  have od3: "v_calc_od_time v3 = od"
    using v0 assms(2)
    by (simp add: v3_def check_performance_series_times em_family_od_time em_shape_times)
  have t3: "v_tert_od_angle v3 = tert_od_angle feature"
    using v0 by (simp add: v3_def check_performance_series_times em_family_tert em_shape_times)
  have vv: "v = em_od_angles d v3" using v by (simp add: v3_def)
  have "v_calc_od_time v =
      od * (if v_sec_od_angle v then (if tert_od_angle feature then 3 else 2) else 1)"
    using assms(3) od3 t3 by (simp add: vv em_od_angles_od_time em_od_angles_sec)
  moreover have "v_tert_od_angle v \<longrightarrow> tert_od_angle feature \<and> v_sec_od_angle v"
    using t3 by (simp add: vv em_od_angles_tert em_od_angles_sec)
  ultimately show ?thesis using p bt by blast
qed

text \<open>
  Claim C7. When a secondary OD angle applies to a tool the OD time is doubled; when a
  tertiary OD angle is requested too it is tripled instead; a tertiary angle requested
  for a tool to which no secondary angle applies leaves the OD time as it is, and no
  tertiary angle is kept. This holds of the lines that settle the angles, for any values
  of the variables that reach them, and of the whole branch, where the OD time is the base
  OD time and the secondary angle is the one the branch ends with (for a tool that is not
  staggered and not a drill without reamer, whose OD time is zero).
\<close>

theorem od_time_doubled_or_tripled:
  "(\<not> py_in ''STAGGERED'' (upper description) \<and> v_sec_od_angle v0 \<and> \<not> v_tert_od_angle v0 \<longrightarrow>
      v_calc_od_time (em_od_angles description v0) = v_calc_od_time v0 * 2)
   \<and> (\<not> py_in ''STAGGERED'' (upper description) \<and> v_sec_od_angle v0 \<and> v_tert_od_angle v0 \<longrightarrow>
      v_calc_od_time (em_od_angles description v0) = v_calc_od_time v0 * 3)
   \<and> (\<not> py_in ''STAGGERED'' (upper description) \<and> \<not> v_sec_od_angle v0 \<and> v_tert_od_angle v0 \<longrightarrow>
      v_calc_od_time (em_od_angles description v0) = v_calc_od_time v0
      \<and> \<not> v_tert_od_angle (em_od_angles description v0))
   \<and> (em_branch PERF_LIST feature description split_description fam row_values cut_dia loc n
         = Inr (v, t)
       \<and> \<not> (fam = ''DRILL'' \<and> \<not> py_in ''REAMER'' description)
       \<and> \<not> py_in ''STAGGERED'' (upper description) \<longrightarrow>
      (\<exists>loc1 inc fl od en ga.
           em_prepare description split_description cut_dia loc = Inr (loc1, inc)
           \<and> em_base_times row_values cut_dia loc1 n = Inr (fl, od, en, ga)
           \<and> v_calc_od_time v =
               od * (if v_sec_od_angle v then (if tert_od_angle feature then 3 else 2) else 1)
           \<and> (v_tert_od_angle v \<longrightarrow> tert_od_angle feature \<and> v_sec_od_angle v)))"
proof (intro conjI impI)
  assume "em_branch PERF_LIST feature description split_description fam row_values cut_dia loc n
         = Inr (v, t)
       \<and> \<not> (fam = ''DRILL'' \<and> \<not> py_in ''REAMER'' description)
       \<and> \<not> py_in ''STAGGERED'' (upper description)"
  then show "\<exists>loc1 inc fl od en ga.
           em_prepare description split_description cut_dia loc = Inr (loc1, inc)
           \<and> em_base_times row_values cut_dia loc1 n = Inr (fl, od, en, ga)
           \<and> v_calc_od_time v =
               od * (if v_sec_od_angle v then (if tert_od_angle feature then 3 else 2) else 1)
           \<and> (v_tert_od_angle v \<longrightarrow> tert_od_angle feature \<and> v_sec_od_angle v)"
    using em_branch_od_time [of PERF_LIST feature description split_description fam row_values
        cut_dia loc n v t]
    by blast
qed (simp_all add: em_od_angles_od_time em_od_angles_tert)

lemma example_small_branch:
  "em_branch [] (InputArgData_default\<lparr>tert_od_angle := True\<rparr>) ''SQ EM''
       [''2FL'', ''SQ'', ''EM''] ''EM'' (example_row\<lparr>min_diameter := 1 / 16, max_diameter := 1 / 8\<rparr>)
       (1 / 10) (1 / 2) 2 =
     Inr (\<lparr>v_loc = 1 / 2, v_inc_percentage = 1, v_split = False, v_sec_od_angle = False,
           v_tert_od_angle = False, v_sec_inc = 0, v_end_time = False,
           v_calc_fl_time = 5 / 2, v_calc_od_time = 5 / 4,
           v_calc_end_time = 0, v_calc_gash_time = 0, v_end_split_time = 0\<rparr>, 15 / 4)"
  by (simp add: em_eval py_text_eval example_row_def)

theorem od_time_doubled_or_tripled_witness:
  "(\<exists>v. em_branch [] (InputArgData_default\<lparr>tert_od_angle := False\<rparr>) ''SQ EM''
          [''2FL'', ''SQ'', ''EM''] ''EM'' example_row (1 / 4) (1 / 2) 2 = Inr (v, 5)
        \<and> v_sec_od_angle v \<and> v_calc_od_time v = 5 / 4 * 2)
   \<and> (\<exists>v. em_branch [] (InputArgData_default\<lparr>tert_od_angle := True\<rparr>) ''SQ EM''
          [''2FL'', ''SQ'', ''EM''] ''EM'' example_row (1 / 4) (1 / 2) 2 = Inr (v, 25 / 4)
        \<and> v_sec_od_angle v \<and> v_calc_od_time v = 5 / 4 * 3)
   \<and> (\<exists>v. em_branch [] (InputArgData_default\<lparr>tert_od_angle := True\<rparr>) ''SQ EM''
          [''2FL'', ''SQ'', ''EM''] ''EM''
          (example_row\<lparr>min_diameter := 1 / 16, max_diameter := 1 / 8\<rparr>) (1 / 10) (1 / 2) 2
          = Inr (v, 15 / 4)
        \<and> \<not> v_sec_od_angle v \<and> \<not> v_tert_od_angle v \<and> v_calc_od_time v = 5 / 4)"
proof -
  let ?d = "''SQ EM''"
  let ?sd = "[''2FL'', ''SQ'', ''EM'']"
  let ?v2 = "\<lparr>v_loc = 1 / 2, v_inc_percentage = 1, v_split = False, v_sec_od_angle = True,
           v_tert_od_angle = False, v_sec_inc = 0, v_end_time = False,
           v_calc_fl_time = 5 / 2, v_calc_od_time = 5 / 2,
           v_calc_end_time = 0, v_calc_gash_time = 0, v_end_split_time = (0::rat)\<rparr>"
  let ?v3 = "\<lparr>v_loc = 1 / 2, v_inc_percentage = 1, v_split = False, v_sec_od_angle = True,
           v_tert_od_angle = True, v_sec_inc = 0, v_end_time = False,
           v_calc_fl_time = 5 / 2, v_calc_od_time = 15 / 4,
           v_calc_end_time = 0, v_calc_gash_time = 0, v_end_split_time = (0::rat)\<rparr>"
  let ?v1 = "\<lparr>v_loc = 1 / 2, v_inc_percentage = 1, v_split = False, v_sec_od_angle = False,
           v_tert_od_angle = False, v_sec_inc = 0, v_end_time = False,
           v_calc_fl_time = 5 / 2, v_calc_od_time = 5 / 4,
           v_calc_end_time = 0, v_calc_gash_time = 0, v_end_split_time = (0::rat)\<rparr>"
  have ns: "\<not> py_in ''STAGGERED'' (upper ?d)" by (simp add: py_text_eval)
  have b2: "em_branch [] (InputArgData_default\<lparr>tert_od_angle := False\<rparr>) ?d ?sd ''EM''
      example_row (1 / 4) (1 / 2) 2 = Inr (?v2, 5)"
    using example_branch [of False] by simp
  have b3: "em_branch [] (InputArgData_default\<lparr>tert_od_angle := True\<rparr>) ?d ?sd ''EM''
      example_row (1 / 4) (1 / 2) 2 = Inr (?v3, 25 / 4)"
    using example_branch [of True] by simp
  note b1 = example_small_branch
  have p: "em_prepare ?d ?sd (1 / 4) (1 / 2) = Inr (1 / 2, 1)"
    "em_prepare ?d ?sd (1 / 10) (1 / 2) = Inr (1 / 2, 1)"
    by (simp_all add: em_eval py_text_eval)
  have bt: "em_base_times (example_row\<lparr>min_diameter := 1 / 16, max_diameter := 1 / 8\<rparr>)
      (1 / 10) (1 / 2) 2 = Inr (5 / 2, 5 / 4, 1 / 2, 1 / 2)"
    by (simp add: em_base_times_def and_then_def np_div_def dynamic_variable_def example_row_def)
  from od_time_doubled_or_tripled [where description = ?d and PERF_LIST = "[]"
      and feature = "InputArgData_default\<lparr>tert_od_angle := False\<rparr>"
      and split_description = ?sd and fam = "''EM''" and row_values = example_row
      and cut_dia = "1 / 4" and loc = "1 / 2" and n = 2 and v = ?v2 and t = 5] ns b2 p
    example_base_times_2
  have c2: "v_calc_od_time ?v2 = 5 / 4 * 2" by simp
  from od_time_doubled_or_tripled [where description = ?d and PERF_LIST = "[]"
      and feature = "InputArgData_default\<lparr>tert_od_angle := True\<rparr>"
      and split_description = ?sd and fam = "''EM''" and row_values = example_row
      and cut_dia = "1 / 4" and loc = "1 / 2" and n = 2 and v = ?v3 and t = "25 / 4"] ns b3 p
    example_base_times_2
  have c3: "v_calc_od_time ?v3 = 5 / 4 * 3" by (simp add: InputArgData_default_def)
  from od_time_doubled_or_tripled [where description = ?d and PERF_LIST = "[]"
      and feature = "InputArgData_default\<lparr>tert_od_angle := True\<rparr>"
      and split_description = ?sd and fam = "''EM''"
      and row_values = "example_row\<lparr>min_diameter := 1 / 16, max_diameter := 1 / 8\<rparr>"
      and cut_dia = "1 / 10" and loc = "1 / 2" and n = 2 and v = ?v1 and t = "15 / 4"] ns b1 p bt
  have c1: "v_calc_od_time ?v1 = 5 / 4" by simp
  from b2 c2 have "\<exists>v. em_branch [] (InputArgData_default\<lparr>tert_od_angle := False\<rparr>) ?d ?sd ''EM''
      example_row (1 / 4) (1 / 2) 2 = Inr (v, 5) \<and> v_sec_od_angle v \<and> v_calc_od_time v = 5 / 4 * 2"
    by (intro exI [of _ ?v2]) simp
  moreover from b3 c3 have "\<exists>v. em_branch [] (InputArgData_default\<lparr>tert_od_angle := True\<rparr>) ?d
      ?sd ''EM'' example_row (1 / 4) (1 / 2) 2 = Inr (v, 25 / 4)
      \<and> v_sec_od_angle v \<and> v_calc_od_time v = 5 / 4 * 3"
    by (intro exI [of _ ?v3]) simp
  moreover from b1 c1 have "\<exists>v. em_branch [] (InputArgData_default\<lparr>tert_od_angle := True\<rparr>) ?d
      ?sd ''EM'' (example_row\<lparr>min_diameter := 1 / 16, max_diameter := 1 / 8\<rparr>) (1 / 10) (1 / 2) 2
      = Inr (v, 15 / 4)
      \<and> \<not> v_sec_od_angle v \<and> \<not> v_tert_od_angle v \<and> v_calc_od_time v = 5 / 4"
    by (intro exI [of _ ?v1]) simp
  ultimately show ?thesis by blast
qed

subsection \<open>Prep times\<close>

lemma robot_time_values:
  "py_round (20 / 60) 4 = 3333 / 10000" "py_round (5 / 60) 4 = 833 / 10000"
  by (simp_all add: py_round_eval)

lemma prep_step_parts:
  "fst (prep_step s p) = fst s + py_round (snd p + robot_time_of p) 3"
  "snd (snd (prep_step s p)) = robot_time_of p"
  by (cases s; simp add: prep_step_def Let_def)+

lemma prep_loop_snoc:
  "prep_loop (ps @ [p]) = prep_step (prep_loop ps) p"
  by (simp add: prep_loop_def)

lemma prep_loop_total:
  "fst (prep_loop ps) = (\<Sum>p \<leftarrow> ps. py_round (snd p + robot_time_of p) 3)"
proof (induction ps rule: rev_induct)
  case Nil
  then show ?case by (simp add: prep_loop_def)
next
  case (snoc p ps)
  then show ?case by (simp add: prep_loop_snoc prep_step_parts)
qed

lemma prep_loop_robot_time:
  "snd (snd (prep_loop ps)) = (if ps = [] then 0 else robot_time_of (last ps))"
proof (induction ps rule: rev_induct)
  case Nil
  then show ?case by (simp add: prep_loop_def)
next
  case (snoc p ps)
  then show ?case by (simp add: prep_loop_snoc prep_step_parts)
qed

lemma total_prep_time_eq:
  "total_prep_time ps dbl =
     py_round ((if dbl then 2 else 1) * (\<Sum>p \<leftarrow> ps. py_round (snd p + robot_time_of p) 3)
               + (if ps = [] then 0 else robot_time_of (last ps))) 3"
proof -
  obtain a b c where abc: "prep_loop ps = (a, b, c)" by (cases "prep_loop ps") auto
  with prep_loop_total [of ps] prep_loop_robot_time [of ps]
  have "a = (\<Sum>p \<leftarrow> ps. py_round (snd p + robot_time_of p) 3)"
    "c = (if ps = [] then 0 else robot_time_of (last ps))"
    by simp_all
  with abc show ?thesis by (simp add: total_prep_time_def mult.commute)
qed

lemma example_needed_preps:
  "needed_preps (prep_type_dict example_flags example_times ''BF'')
     = [(''Neck Prep (Before Fluting)'', 11 / 20)]"
  by (simp add: needed_preps_def prep_type_dict_def example_flags_def example_times_def
      inc_percentage_def py_round_eval)

lemma example_robot_time: "robot_time_of (''Neck Prep (Before Fluting)'', 11 / 20) = 3333 / 10000"
  by (simp add: robot_time_of_def py_round_eval)

text \<open>
  Claim C5. The claim gives the aggregate prep time as the sum, over the needed
  operations, of the time increased by 10 percent plus the robot time of a short operation,
  doubled for a double-ended tool, with nothing else added. The code adds the robot time
  of the last operation once more after the doubling. For a tool whose only operation is a
  neck prep of 0.5 minutes (0.55 increased, robot time 0.3333) it reports 1.216 where the
  sum is 0.8833, and for the double-ended tool 2.099, which is neither twice the sum nor
  twice 1.216.
\<close>

theorem prep_total_adds_last_robot_time_again:
  "total_prep_time (needed_preps (prep_type_dict example_flags example_times ''BF'')) False
     = 1216 / 1000
   \<and> surcharged_sum (needed_preps (prep_type_dict example_flags example_times ''BF'')) False
     = 8833 / 10000
   \<and> total_prep_time (needed_preps (prep_type_dict example_flags example_times ''BF'')) True
     = 2099 / 1000
   \<and> surcharged_sum (needed_preps (prep_type_dict example_flags example_times ''BF'')) True
     = 17666 / 10000
   \<and> prep_cycle_time
        (finish_prep num_str example_flags example_times ''BF'' False ToolInfo_default)
     = 1216 / 1000"
proof (intro conjI)
  show "total_prep_time (needed_preps (prep_type_dict example_flags example_times ''BF''))
      False = 1216 / 1000"
    by (simp add: example_needed_preps total_prep_time_eq example_robot_time py_round_eval)
  show "total_prep_time (needed_preps (prep_type_dict example_flags example_times ''BF''))
      True = 2099 / 1000"
    by (simp add: example_needed_preps total_prep_time_eq example_robot_time py_round_eval)
  show "surcharged_sum (needed_preps (prep_type_dict example_flags example_times ''BF''))
      False = 8833 / 10000"
    by (simp add: example_needed_preps surcharged_sum_def example_robot_time)
  show "surcharged_sum (needed_preps (prep_type_dict example_flags example_times ''BF''))
      True = 17666 / 10000"
    by (simp add: example_needed_preps surcharged_sum_def example_robot_time)
  show "prep_cycle_time
        (finish_prep num_str example_flags example_times ''BF'' False ToolInfo_default)
     = 1216 / 1000"
    by (simp add: finish_prep_def example_needed_preps total_prep_time_eq example_robot_time
        py_round_eval)
qed

end
